theory Spec2Isabelle
  imports Main
begin

section \<open>Strings as Python holds them\<close>

text \<open>
  A Python \<open>str\<close> is a sequence of code points. The model keeps the code points below
  256, one \<open>char\<close> each. \<open>py_isspace\<close> is the whitespace class of \<open>str.isspace\<close>,
  of \<open>str.strip\<close> and of the regular expression escape \<open>\s\<close> on that range: tab, line feed,
  vertical tab, form feed, carriage return, the four separators 0x1C to 0x1F, space,
  NEL (0x85) and the no-break space (0xA0).
\<close>

definition py_isspace :: "char \<Rightarrow> bool" where
  "py_isspace c = ((of_char c :: nat) \<in> set [9, 10, 11, 12, 13, 28, 29, 30, 31, 32, 133, 160])"

text \<open>\<open>sep.join(words)\<close>.\<close>

fun join :: "string \<Rightarrow> string list \<Rightarrow> string" where
  "join sep [] = []"
| "join sep [w] = w"
| "join sep (w # v # ws) = w @ sep @ join sep (v # ws)"

text \<open>\<open>s.strip()\<close>: whitespace is removed at both ends.\<close>

definition py_strip :: "string \<Rightarrow> string" where
  "py_strip s = rev (dropWhile py_isspace (rev (dropWhile py_isspace s)))"

text \<open>
  \<open>s.lower()\<close> on the code points below 256: the letters A to Z and the accented capitals
  0xC0 to 0xDE (but the multiplication sign 0xD7) move up by 32.
\<close>

definition py_lower_char :: "char \<Rightarrow> char" where
  "py_lower_char c =
     (let n = (of_char c :: nat)
      in if (65 \<le> n \<and> n \<le> 90) \<or> (192 \<le> n \<and> n \<le> 222 \<and> n \<noteq> 215) then char_of (n + 32) else c)"

definition py_lower :: "string \<Rightarrow> string" where
  "py_lower s = map py_lower_char s"

text \<open>
  \<open>re.sub(r'[...]+', ' ', text)\<close> for a character class \<open>P\<close>: every maximal run of
  characters of the class becomes one space.
\<close>

function re_sub_runs :: "(char \<Rightarrow> bool) \<Rightarrow> string \<Rightarrow> string" where
  "re_sub_runs P [] = []"
| "re_sub_runs P (c # cs) =
     (if P c then CHR '' '' # re_sub_runs P (dropWhile P cs) else c # re_sub_runs P cs)"
  by pat_completeness auto
termination
  by (relation "measure (\<lambda>(P, s). length s)") (auto simp: less_Suc_eq_le length_dropWhile_le)

text \<open>\<open>os.path.basename\<close> and the extension part of \<open>os.path.splitext\<close> (POSIX paths).\<close>

definition basename :: "string \<Rightarrow> string" where
  "basename p = rev (takeWhile (\<lambda>c. c \<noteq> CHR ''/'') (rev p))"

text \<open>
  \<open>splitext\<close> looks for the last dot after the last slash; the extension starts there,
  unless only dots stand between the slash and that dot (a name such as \<open>.bashrc\<close> has no
  extension).
\<close>

definition splitext_ext :: "string \<Rightarrow> string" where
  "splitext_ext p =
     (let name = basename p;
          suffix = rev (takeWhile (\<lambda>c. c \<noteq> CHR ''.'') (rev name));
          stem = take (length name - length suffix - 1) name
      in if CHR ''.'' \<in> set name \<and> (\<exists>c\<in>set stem. c \<noteq> CHR ''.'') then CHR ''.'' # suffix else [])"

section \<open>Data classes\<close>

record DealSubmission =
  email :: string
  first_name :: string
  project_name :: string
  document_file :: string
  submission_id :: "string option"
  created_at :: "string option"

record ProcessingResult =
  project_folder_id :: string
  underwrite_doc_id :: string
  kiq_doc_id :: string
  duplicate_detected :: bool

text \<open>
  The dictionary \<open>final_config\<close> that \<open>_load_config\<close> returns: it always holds these ten
  keys.
\<close>

record config =
  anthropic_api_key :: string
  google_credentials_path :: string
  base_folder_id :: string
  from_email :: string
  internal_notification_emails :: "string list"
  company_name :: string
  signature_name :: string
  signature_title :: string
  phone_number :: string
  support_url :: string

section \<open>The outside world\<close>

text \<open>
  A Python exception is its class name and its text (\<open>str(e)\<close>, what the log messages
  print). Every handler of the program is \<open>except Exception\<close>, so the class never decides
  a branch.
\<close>

datatype exn = Exn (exn_class: string) (exn_text: string)

datatype level = INFO | WARNING | ERROR

text \<open>
  The message that \<open>_create_message_raw\<close> encodes: the body and the three headers. The
  base64 text of the MIME message is not modelled, only what it encodes.
\<close>

record mail =
  mail_to :: string
  mail_from :: string
  mail_subject :: string
  mail_body :: string

text \<open>
  Every call that leaves the program, with the arguments the program gives it:
  the Drive calls (\<open>files().list\<close>, \<open>files().create\<close> of a folder with name, MIME type and
  parents, \<open>files().create\<close> of an upload with name, MIME type, parents, local path and the
  \<open>convert\<close> flag, \<open>files().get\<close>, \<open>files().update\<close> with file, \<open>addParents\<close> and
  \<open>removeParents\<close>), the Docs calls (\<open>documents().create\<close> with a title,
  \<open>documents().batchUpdate\<close> inserting a text at index 1), the Gmail call, the two HTTP
  calls (\<open>requests.get\<close> of an export link, \<open>requests.post\<close> of a prompt to the generation
  service), opening the local file, and the authentication at start-up.
\<close>

datatype call =
    FilesList string
  | FilesCreate string "string option" "string list"
  | OpenFile string
  | MediaUpload string "string option" "string list" string bool
  | FilesGet string
  | HttpGet string
  | MessagesPost string
  | DocsCreate string
  | DocsBatchUpdate string string
  | FilesUpdate string string string
  | GmailSend mail
  | Authenticate string

record drive_file =
  file_id :: string
  file_name :: string
  file_mime :: "string option"
  file_parents :: "string list"

text \<open>
  The state the program acts on: the files Drive holds, the journal of the calls the program
  has issued so far (a call is entered whether it succeeds or raises), and the lines the
  logger has written. A call that raises is taken to leave the files as they were.
\<close>

record world =
  drive :: "drive_file list"
  journal :: "call list"
  logged :: "(level \<times> string) list"

text \<open>
  What the collaborators answer. Each answer may depend on the calls issued before
  (\<open>journal\<close>) and on the call itself:
  \<^item> \<open>raises\<close>: the exception the call ends with, if any (a transport error, a non-success
    status, a malformed response, a missing file);
  \<^item> \<open>new_id\<close>: the \<open>id\<close> (\<open>documentId\<close>) in the answer to a create call;
  \<^item> \<open>export_link\<close>: \<open>exportLinks.get('text/plain')\<close> in the answer to \<open>files().get\<close>;
  \<^item> \<open>downloaded\<close>: \<open>response.text\<close> of the export link;
  \<^item> \<open>generated\<close>: \<open>result['content'][0]['text']\<close> in the answer of the generation service;
  \<^item> \<open>name_contains\<close>: Drive's operator \<open>name contains '...'\<close>, from a file name and the
    quoted term to a truth value; the program does not define it;
  \<^item> \<open>getenv\<close> and \<open>read_config\<close>: the environment variables, and the dictionary parsed
    from the configuration file (\<open>None\<close> when the path does not exist).
\<close>

record config_file =
  cf_anthropic_api_key :: "string option"
  cf_google_credentials_path :: "string option"
  cf_base_folder_id :: "string option"
  cf_from_email :: "string option"
  cf_internal_notification_emails :: "string list option"
  cf_company_name :: "string option"
  cf_signature_name :: "string option"
  cf_signature_title :: "string option"
  cf_phone_number :: "string option"
  cf_support_url :: "string option"

record services =
  raises :: "call list \<Rightarrow> call \<Rightarrow> exn option"
  new_id :: "call list \<Rightarrow> call \<Rightarrow> string"
  export_link :: "call list \<Rightarrow> string \<Rightarrow> string option"
  downloaded :: "call list \<Rightarrow> string \<Rightarrow> string"
  generated :: "call list \<Rightarrow> string \<Rightarrow> string"
  name_contains :: "string \<Rightarrow> string \<Rightarrow> bool"
  getenv :: "string \<Rightarrow> string option"
  read_config :: "string \<Rightarrow> config_file option"

text \<open>\<open>logger.info\<close>, \<open>logger.warning\<close>, \<open>logger.error\<close>.\<close>

definition logger :: "level \<Rightarrow> string \<Rightarrow> world \<Rightarrow> world" where
  "logger l m w = w\<lparr>logged := logged w @ [(l, m)]\<rparr>"

text \<open>Issuing a call: it is entered in the journal, and the collaborator raises or not.\<close>

definition perform :: "services \<Rightarrow> call \<Rightarrow> world \<Rightarrow> exn option \<times> world" where
  "perform sv c w = (raises sv (journal w) c, w\<lparr>journal := journal w @ [c]\<rparr>)"

definition add_file :: "drive_file \<Rightarrow> world \<Rightarrow> world" where
  "add_file f w = w\<lparr>drive := drive w @ [f]\<rparr>"

section \<open>\<open>AnthropicAPI\<close>\<close>

definition underwrite_prompt :: "string \<Rightarrow> string" where
  "underwrite_prompt document_text =
     ''As an industry expert conducting initial pre-due diligence screening, '' @
     ''provide only a direct structured analysis without any introductory sentences '' @
     ''for the following investment opportunity. Begin immediately with the analysis '' @
     ''sections using the information from these quotations and your comprehensive '' @
     ''market knowledge:\<newline>'' @ ''\<newline>'' @ document_text @ ''\<newline>'' @
     ''\<newline>'' @ ''1. LACK OF DURABLE COMPETITIVE ADVANTAGES\<newline>'' @ ''\<newline>'' @
     ''Technological Differentiation\<newline>'' @ ''- [Point 1]\<newline>'' @
     ''- [Point 2]\<newline>'' @ ''- [Point 3]\<newline>'' @ ''\<newline>'' @
     ''Market Position\<newline>'' @ ''- [Point 1]\<newline>'' @ ''- [Point 2]\<newline>'' @
     ''- [Point 3]\<newline>'' @ ''\<newline>'' @ ''Economic Moat Factors\<newline>'' @
     ''- [Point 1]\<newline>'' @ ''- [Point 2]\<newline>'' @ ''- [Point 3]\<newline>'' @
     ''\<newline>'' @ ''Revenue Security\<newline>'' @ ''- [Point 1]\<newline>'' @
     ''- [Point 2]\<newline>'' @ ''- [Point 3]\<newline>'' @ ''\<newline>'' @
     ''Regulatory & Environmental\<newline>'' @ ''- [Point 1]\<newline>'' @
     ''- [Point 2]\<newline>'' @ ''- [Point 3]\<newline>'' @ ''\<newline>'' @
     ''2. INVESTOR RED FLAGS\<newline>'' @ ''\<newline>'' @ ''Investment Structure\<newline>'' @
     ''- [Point 1]\<newline>'' @ ''- [Point 2]\<newline>'' @ ''- [Point 3]\<newline>'' @
     ''\<newline>'' @ ''Management & Execution\<newline>'' @ ''- [Point 1]\<newline>'' @
     ''- [Point 2]\<newline>'' @ ''- [Point 3]\<newline>'' @ ''\<newline>'' @
     ''Financial Considerations\<newline>'' @ ''- [Point 1]\<newline>'' @
     ''- [Point 2]\<newline>'' @ ''- [Point 3]\<newline>'' @ ''\<newline>'' @
     ''Market & Competition\<newline>'' @ ''- [Point 1]\<newline>'' @
     ''- [Point 2]\<newline>'' @ ''- [Point 3]\<newline>'' @ ''\<newline>'' @
     ''Due Diligence Priorities\<newline>'' @ ''- [Point 1]\<newline>'' @
     ''- [Point 2]\<newline>'' @ ''- [Point 3]\<newline>'' @ ''\<newline>'' @
     ''CONCLUSION\<newline>'' @ ''\<newline>'' @
     ''Provide a 2-3 sentence conclusion highlighting primary competitive vulnerabilities, '' @
     ''most critical investor concerns, and recommendation on proceeding with '' @
     ''full due diligence. Format as a single paragraph without bullet points.\<newline>'' @
     ''\<newline>'' @ ''Formatting Rules:\<newline>'' @
     ''- Use consistent hyphen (-) for all bullet points\<newline>'' @
     ''- Leave one blank line between major sections\<newline>'' @
     ''- No asterisks or other bullet point styles\<newline>'' @
     ''- No indentation for bullet points\<newline>'' @
     ''- Capitalize all major section headers\<newline>'' @
     ''- Use one blank line between subsections\<newline>'' @
     ''- Format conclusion as a single paragraph without bullets''"

definition mandatory_question_1 :: string where
  "mandatory_question_1 =
     ''What are they offering as compensation for the contribution of our '' @
     ''efforts, networks and capital introduction sources?''"

definition mandatory_question_2 :: string where
  "mandatory_question_2 =
     ''Does the company have any open litigation, or threats of litigation '' @
     ''for any unresolved open matters as disputes with counter parts on agreements?''"

definition kiq_instructions :: string where
  "kiq_instructions =
     ''Generate exactly 15 due diligence questions, including the two mandatory '' @
     ''questions below. Each question should be followed by an '' @ [CHR 0x27] @ ''A:'' @
     [CHR 0x27] @ '' line for responses. Begin with these mandatory questions:\<newline>'' @
     ''\<newline>''"

definition kiq_distribution :: string where
  "kiq_distribution =
     ''Generate the remaining 13 questions following this distribution:\<newline>'' @
     ''\<newline>'' @ ''WEAKNESSES INVESTIGATION (3 questions)\<newline>'' @
     ''- Questions targeting competitive disadvantages identified in the analysis\<newline>'' @
     ''- Queries about gaps in market positioning\<newline>'' @
     ''- Questions about operational vulnerabilities\<newline>'' @ ''\<newline>'' @
     ''COMPETITIVE ADVANTAGE VERIFICATION (3 questions)\<newline>'' @
     ''- Questions challenging claimed market differentiators\<newline>'' @
     ''- Queries about sustainability of advantages\<newline>'' @
     ''- Questions about defensive moat strength\<newline>'' @ ''\<newline>'' @
     ''FINANCIAL SCRUTINY (3 questions)\<newline>'' @
     ''- Questions about projection assumptions\<newline>'' @
     ''- Queries about capital structure decisions\<newline>'' @
     ''- Questions about revenue model sustainability\<newline>'' @ ''\<newline>'' @
     ''RISK MITIGATION (2 questions)\<newline>'' @
     ''- Questions about identified risk factors\<newline>'' @
     ''- Questions about risk management strategies\<newline>'' @ ''\<newline>'' @
     ''DUE DILIGENCE GAPS (2 questions)\<newline>'' @
     ''- Questions about missing critical information\<newline>'' @
     ''- Questions about verification needs\<newline>'' @ ''\<newline>'' @
     ''Format all 15 questions as a single numbered list (1-15), each followed '' @ ''by '' @
     [CHR 0x27] @ ''A:'' @ [CHR 0x27] @
     '' on a new line. Begin immediately with questions without any introduction '' @
     ''or context statements.''"

definition kiq_prompt :: "string \<Rightarrow> string" where
  "kiq_prompt underwrite_text =
     ''Based on the following pre-due diligence analysis findings:\<newline>'' @
     ''\<newline>'' @ underwrite_text @ ''\<newline>'' @ ''\<newline>'' @
     kiq_instructions @
     ''1. '' @ mandatory_question_1 @ ''\<newline>'' @ ''A:\<newline>'' @
     ''\<newline>'' @
     ''2. '' @ mandatory_question_2 @ ''\<newline>'' @
     ''A:\<newline>'' @ ''\<newline>'' @
     kiq_distribution"

definition analysis_failed :: string where
  "analysis_failed = ''Analysis generation failed - please review manually.''"

definition questions_failed :: string where
  "questions_failed = ''Question generation failed - please create manually.''"

text \<open>
  Both methods post the prompt and return \<open>result['content'][0]['text']\<close>; any exception of
  the \<open>try\<close> block is logged and the fixed text is returned instead.
\<close>

definition generate_underwrite_analysis :: "services \<Rightarrow> string \<Rightarrow> world \<Rightarrow> string \<times> world" where
  "generate_underwrite_analysis sv document_text w =
     (let prompt = underwrite_prompt document_text
      in case perform sv (MessagesPost prompt) w of
           (None, w1) \<Rightarrow> (generated sv (journal w) prompt, w1)
         | (Some e, w1) \<Rightarrow>
             (analysis_failed, logger ERROR (''Underwrite analysis failed: '' @ exn_text e) w1))"

definition generate_kiq_questions :: "services \<Rightarrow> string \<Rightarrow> world \<Rightarrow> string \<times> world" where
  "generate_kiq_questions sv underwrite_text w =
     (let prompt = kiq_prompt underwrite_text
      in case perform sv (MessagesPost prompt) w of
           (None, w1) \<Rightarrow> (generated sv (journal w) prompt, w1)
         | (Some e, w1) \<Rightarrow>
             (questions_failed, logger ERROR (''KIQ generation failed: '' @ exn_text e) w1))"

section \<open>\<open>GoogleWorkspaceManager\<close>\<close>

subsection \<open>Duplicate check\<close>

text \<open>
  The character class of the pattern \<open>[\s\-\.\,\;\:\|\/\_]+\<close>: whitespace and the eight
  characters \<open>- . , ; : | / _\<close>.
\<close>

definition is_search_separator :: "char \<Rightarrow> bool" where
  "is_search_separator c = (py_isspace c \<or> c \<in> set ''-.,;:|/_'')"

text \<open>
  \<open>re.split(r'[\s\-\.\,\;\:\|\/\_]+', text)\<close>: the pattern matches a maximal run of
  separators, and the text between two matches is a fragment. A match at the very start or
  the very end leaves an empty fragment there; the empty text gives the one empty fragment.
\<close>

function re_split :: "string \<Rightarrow> string list" where
  "re_split [] = [[]]"
| "re_split (c # cs) =
     (if is_search_separator c then [] # re_split (dropWhile is_search_separator cs)
      else (case re_split cs of
              [] \<Rightarrow> [[c]]
            | f # fs \<Rightarrow> (c # f) # fs))"
  by pat_completeness auto
termination
  by (relation "measure length") (auto simp: less_Suc_eq_le length_dropWhile_le)

definition clean_text_for_search :: "string \<Rightarrow> string" where
  "clean_text_for_search text = join '','' (filter (\<lambda>word. word \<noteq> []) (re_split text))"

definition search_term :: "string \<Rightarrow> string \<Rightarrow> string" where
  "search_term address name = address @ '','' @ clean_text_for_search name"

definition duplicate_query :: "config \<Rightarrow> string \<Rightarrow> string \<Rightarrow> string" where
  "duplicate_query cfg address name =
     ''name contains '' @ [CHR 0x27] @ search_term address name @ [CHR 0x27] @
     '' and parents in '' @ [CHR 0x27] @ base_folder_id cfg @ [CHR 0x27]"

text \<open>
  What Drive answers to the query: the files whose name contains the term, in the sense of
  Drive's operator, and that have the base folder among their parents. The answer is
  computed from the term and the parent; the text of the query, as the program builds it,
  is what the journal records.
\<close>

definition matching_files :: "services \<Rightarrow> config \<Rightarrow> string \<Rightarrow> drive_file list \<Rightarrow> drive_file list" where
  "matching_files sv cfg term files =
     filter (\<lambda>f. name_contains sv (file_name f) term \<and> base_folder_id cfg \<in> set (file_parents f)) files"

definition check_duplicate_project ::
  "services \<Rightarrow> config \<Rightarrow> string \<Rightarrow> string \<Rightarrow> world \<Rightarrow> bool \<times> world" where
  "check_duplicate_project sv cfg address name w =
     (case perform sv (FilesList (duplicate_query cfg address name)) w of
        (None, w1) \<Rightarrow>
          (length (matching_files sv cfg (search_term address name) (drive w)) > 0, w1)
      | (Some e, w1) \<Rightarrow> (False, logger ERROR (''Duplicate check failed: '' @ exn_text e) w1))"

subsection \<open>Folders, upload, documents\<close>

definition folder_mime :: string where
  "folder_mime = ''application/vnd.google-apps.folder''"

definition document_mime :: string where
  "document_mime = ''application/vnd.google-apps.document''"

text \<open>One \<open>files().create(...).execute()\<close> of a folder, and the \<open>id\<close> of the answer.\<close>

definition create_folder :: "services \<Rightarrow> string \<Rightarrow> string \<Rightarrow> world \<Rightarrow> (exn + string) \<times> world" where
  "create_folder sv name parent w =
     (let c = FilesCreate name (Some folder_mime) [parent]
      in case perform sv c w of
           (Some e, w1) \<Rightarrow> (Inl e, w1)
         | (None, w1) \<Rightarrow>
             (let i = new_id sv (journal w) c
              in (Inr i, add_file \<lparr>file_id = i, file_name = name, file_mime = Some folder_mime,
                                   file_parents = [parent]\<rparr> w1)))"

definition create_project_structure ::
  "services \<Rightarrow> config \<Rightarrow> DealSubmission \<Rightarrow> world \<Rightarrow> (exn + string \<times> string \<times> string) \<times> world" where
  "create_project_structure sv cfg submission w =
     (case
        (case create_folder sv (email submission @ '' - '' @ project_name submission)
                (base_folder_id cfg) w of
           (Inl e, w1) \<Rightarrow> (Inl e, w1)
         | (Inr project_folder, w1) \<Rightarrow>
             (case create_folder sv ''PRE-UNDERWRITE'' project_folder w1 of
                (Inl e, w2) \<Rightarrow> (Inl e, w2)
              | (Inr preunderwrite_folder, w2) \<Rightarrow>
                  (case create_folder sv ''KIQ SUBMISSIONS'' project_folder w2 of
                     (Inl e, w3) \<Rightarrow> (Inl e, w3)
                   | (Inr kiq_folder, w3) \<Rightarrow>
                       (Inr (project_folder, preunderwrite_folder, kiq_folder),
                        logger INFO (''Created project structure for '' @ project_name submission)
                          w3))))
      of
        (Inl e, w') \<Rightarrow>
          (Inl e, logger ERROR (''Failed to create project structure: '' @ exn_text e) w')
      | (Inr ids, w') \<Rightarrow> (Inr ids, w'))"

definition upload_document ::
  "services \<Rightarrow> string \<Rightarrow> string \<Rightarrow> string option \<Rightarrow> world \<Rightarrow> (exn + string) \<times> world" where
  "upload_document sv file_path folder filename w =
     (let name = (case filename of None \<Rightarrow> basename file_path
                  | Some n \<Rightarrow> if n = [] then basename file_path else n);
          ext = splitext_ext name;
          convert = (py_lower ext \<in> set [''.docx'', ''.doc'']);
          mime = (if convert then Some document_mime else None)
      in case
           (case perform sv (OpenFile file_path) w of
              (Some e, w1) \<Rightarrow> (Inl e, w1)
            | (None, w1) \<Rightarrow>
                (let c = MediaUpload name mime [folder] file_path convert
                 in case perform sv c w1 of
                      (Some e, w2) \<Rightarrow> (Inl e, w2)
                    | (None, w2) \<Rightarrow>
                        (let i = new_id sv (journal w1) c
                         in (Inr i, add_file \<lparr>file_id = i, file_name = name, file_mime = mime,
                                              file_parents = [folder]\<rparr> w2))))
         of
           (Inl e, w') \<Rightarrow> (Inl e, logger ERROR (''Failed to upload document: '' @ exn_text e) w')
         | (Inr i, w') \<Rightarrow> (Inr i, w'))"

text \<open>
  \<open>files().update(fileId, addParents, removeParents)\<close> as Drive applies it: the file of
  that id loses the one parent and gains the other.
\<close>

definition move_file :: "string \<Rightarrow> string \<Rightarrow> string \<Rightarrow> world \<Rightarrow> world" where
  "move_file i add remove w =
     w\<lparr>drive := map (\<lambda>f. if file_id f = i
                          then f\<lparr>file_parents := filter (\<lambda>p. p \<noteq> remove) (file_parents f) @ [add]\<rparr>
                          else f) (drive w)\<rparr>"

definition create_document ::
  "services \<Rightarrow> string \<Rightarrow> string \<Rightarrow> string \<Rightarrow> world \<Rightarrow> (exn + string) \<times> world" where
  "create_document sv title content folder w =
     (case
        (case perform sv (DocsCreate title) w of
           (Some e, w1) \<Rightarrow> (Inl e, w1)
         | (None, w1) \<Rightarrow>
             (let doc_id = new_id sv (journal w) (DocsCreate title);
                  w2 = add_file \<lparr>file_id = doc_id, file_name = title,
                                 file_mime = Some document_mime, file_parents = [''root'']\<rparr> w1
              in case perform sv (DocsBatchUpdate doc_id content) w2 of
                   (Some e, w3) \<Rightarrow> (Inl e, w3)
                 | (None, w3) \<Rightarrow>
                     (case perform sv (FilesUpdate doc_id folder ''root'') w3 of
                        (Some e, w4) \<Rightarrow> (Inl e, w4)
                      | (None, w4) \<Rightarrow> (Inr doc_id, move_file doc_id folder ''root'' w4))))
      of
        (Inl e, w') \<Rightarrow> (Inl e, logger ERROR (''Failed to create document: '' @ exn_text e) w')
      | (Inr i, w') \<Rightarrow> (Inr i, w'))"

subsection \<open>Text extraction\<close>

text \<open>The class \<open>[\n\r\t\\"]\<close> of the first substitution.\<close>

definition is_format_noise :: "char \<Rightarrow> bool" where
  "is_format_noise c = ((of_char c :: nat) \<in> set [10, 13, 9, 92, 34])"

definition clean_extracted :: "string \<Rightarrow> string" where
  "clean_extracted text = py_strip (re_sub_runs py_isspace (re_sub_runs is_format_noise text))"

definition extract_document_text :: "services \<Rightarrow> string \<Rightarrow> world \<Rightarrow> string \<times> world" where
  "extract_document_text sv i w =
     (case perform sv (FilesGet i) w of
        (Some e, w1) \<Rightarrow>
          (''Text extraction error'', logger ERROR (''Text extraction failed: '' @ exn_text e) w1)
      | (None, w1) \<Rightarrow>
          (case export_link sv (journal w) i of
             None \<Rightarrow>
               (''Document text extraction failed'',
                logger WARNING ''Could not extract text from document'' w1)
           | Some text_link \<Rightarrow>
               if text_link = [] then
                 (''Document text extraction failed'',
                  logger WARNING ''Could not extract text from document'' w1)
               else
                 (case perform sv (HttpGet text_link) w1 of
                    (Some e, w2) \<Rightarrow>
                      (''Text extraction error'',
                       logger ERROR (''Text extraction failed: '' @ exn_text e) w2)
                  | (None, w2) \<Rightarrow>
                      (clean_extracted (downloaded sv (journal w1) text_link), w2))))"

subsection \<open>Notifications\<close>

definition create_message_raw :: "config \<Rightarrow> string \<Rightarrow> string \<Rightarrow> string \<Rightarrow> mail" where
  "create_message_raw cfg to_email subject body =
     \<lparr>mail_to = to_email, mail_from = from_email cfg, mail_subject = subject, mail_body = body\<rparr>"

definition client_email_body :: "config \<Rightarrow> DealSubmission \<Rightarrow> string \<Rightarrow> string \<Rightarrow> string" where
  "client_email_body cfg submission underwrite_link kiq_link =
     ''Hi '' @ first_name submission @ '',\<newline>'' @ ''\<newline>'' @
     ''Thank you for your submission. I'' @ [CHR 0x27] @
     ''d like to provide you with two important documents which were built by '' @
     ''our Project Optimization Modules for your review and consideration:\<newline>'' @
     ''\<newline>'' @ ''The first attachment is our '' @ [CHR 0x22] @ company_name cfg @
     '' Underwrite'' @ [CHR 0x22] @
     '' document, which presents a hyper-critical analysis of your submitted '' @
     ''project. We'' @ [CHR 0x27] @
     ''ve specifically designed this analysis to mirror the scrutinizing perspective '' @
     ''that potential investors would likely take when evaluating your deal. '' @
     ''This thorough examination should provide valuable insights into how your '' @
     ''project might be perceived by investment stakeholders.\<newline>'' @ ''\<newline>'' @
     ''Additionally, you'' @ [CHR 0x27] @ ''ll find the '' @ [CHR 0x22] @ ''KIQ_1'' @
     [CHR 0x22] @ '' document which contains essential questions for your team to address '' @
     ''regarding the deal. \<newline>'' @ ''\<newline>'' @ ''Once you'' @ [CHR 0x27] @
     ''ve completed the KIQ (Key Investor Questions) worksheet, if you'' @ [CHR 0x27] @
     ''re interested in learning more about our services and potentially engaging '' @
     ''with our full suite of Project Optimization Modules, we would be happy '' @
     ''to schedule a call to discuss next steps.\<newline>'' @ ''\<newline>'' @
     company_name cfg @ '' Underwrite Analysis: '' @ underwrite_link @ ''\<newline>'' @
     ''\<newline>'' @ ''Key Investor Questions (KIQ_1): '' @ kiq_link @ ''\<newline>'' @
     ''\<newline>'' @ ''Best regards,\<newline>'' @ ''\<newline>'' @ signature_name cfg @
     '' | '' @ signature_title cfg @ '' | '' @ company_name cfg @ ''\<newline>'' @
     phone_number cfg"

definition client_email :: "config \<Rightarrow> DealSubmission \<Rightarrow> string \<Rightarrow> string \<Rightarrow> mail" where
  "client_email cfg submission underwrite_link kiq_link =
     create_message_raw cfg (email submission)
       (''Your '' @ company_name cfg @ '' Deal Submission'')
       (client_email_body cfg submission underwrite_link kiq_link)"

definition send_client_email ::
  "services \<Rightarrow> config \<Rightarrow> DealSubmission \<Rightarrow> string \<Rightarrow> string \<Rightarrow> world \<Rightarrow> world" where
  "send_client_email sv cfg submission underwrite_link kiq_link w =
     (case perform sv (GmailSend (client_email cfg submission underwrite_link kiq_link)) w of
        (None, w1) \<Rightarrow> logger INFO (''Sent client email to '' @ email submission) w1
      | (Some e, w1) \<Rightarrow> logger ERROR (''Failed to send client email: '' @ exn_text e) w1)"

definition internal_notification_body ::
  "DealSubmission \<Rightarrow> string \<Rightarrow> string \<Rightarrow> string \<Rightarrow> string" where
  "internal_notification_body submission project_link underwrite_link kiq_link =
     ''New Deal Submission from: '' @ email submission @ ''\<newline>'' @ ''\<newline>'' @
     ''Project Name: '' @ project_name submission @ ''\<newline>'' @ ''\<newline>'' @
     ''Underwriting Report: '' @ underwrite_link @ ''\<newline>'' @ ''\<newline>'' @ ''KIQ'' @
     [CHR 0x27] @ ''s: '' @ kiq_link @ ''\<newline>'' @ ''\<newline>'' @ ''Project Folder: '' @
     project_link"

definition internal_notification ::
  "config \<Rightarrow> DealSubmission \<Rightarrow> string \<Rightarrow> string \<Rightarrow> string \<Rightarrow> string \<Rightarrow> mail" where
  "internal_notification cfg submission project_link underwrite_link kiq_link to_email =
     create_message_raw cfg to_email ''NEW DEAL SUBMITTED''
       (internal_notification_body submission project_link underwrite_link kiq_link)"

text \<open>
  The loop over the internal addressees stands inside the \<open>try\<close>: the first send that
  raises ends it, and the addressees after it get nothing.
\<close>

fun send_each :: "services \<Rightarrow> mail list \<Rightarrow> world \<Rightarrow> exn option \<times> world" where
  "send_each sv [] w = (None, w)"
| "send_each sv (m # ms) w =
     (case perform sv (GmailSend m) w of
        (Some e, w1) \<Rightarrow> (Some e, w1)
      | (None, w1) \<Rightarrow> send_each sv ms w1)"

definition send_internal_notification ::
  "services \<Rightarrow> config \<Rightarrow> DealSubmission \<Rightarrow> string \<Rightarrow> string \<Rightarrow> string \<Rightarrow> world \<Rightarrow> world" where
  "send_internal_notification sv cfg submission project_link underwrite_link kiq_link w =
     (case send_each sv
             (map (internal_notification cfg submission project_link underwrite_link kiq_link)
                (internal_notification_emails cfg)) w of
        (None, w1) \<Rightarrow> logger INFO ''Sent internal notifications'' w1
      | (Some e, w1) \<Rightarrow> logger ERROR (''Failed to send internal notification: '' @ exn_text e) w1)"

definition duplicate_notification_body :: "config \<Rightarrow> DealSubmission \<Rightarrow> string" where
  "duplicate_notification_body cfg submission =
     ''Dear '' @ first_name submission @ '',\<newline>'' @ ''\<newline>'' @ ''We'' @
     [CHR 0x27] @ ''ve detected that you'' @ [CHR 0x27] @
     ''ve already submitted a project with this name. To maintain accurate records '' @
     ''in our system, please submit each project only once.\<newline>'' @ ''\<newline>'' @
     ''If you believe this is an error or need to submit an updated version, '' @
     ''please contact our support team at '' @ support_url cfg @ ''.\<newline>'' @
     ''\<newline>'' @ ''Best regards,\<newline>'' @ ''\<newline>'' @ company_name cfg"

definition duplicate_notification :: "config \<Rightarrow> DealSubmission \<Rightarrow> mail" where
  "duplicate_notification cfg submission =
     create_message_raw cfg (email submission)
       (''Duplicate Project Submission Detected - '' @ company_name cfg)
       (duplicate_notification_body cfg submission)"

definition send_duplicate_notification ::
  "services \<Rightarrow> config \<Rightarrow> DealSubmission \<Rightarrow> world \<Rightarrow> world" where
  "send_duplicate_notification sv cfg submission w =
     (case perform sv (GmailSend (duplicate_notification cfg submission)) w of
        (None, w1) \<Rightarrow> logger INFO (''Sent duplicate notification to '' @ email submission) w1
      | (Some e, w1) \<Rightarrow> logger ERROR (''Failed to send duplicate notification: '' @ exn_text e) w1)"

section \<open>\<open>DealProcessor\<close>\<close>

subsection \<open>\<open>_load_config\<close>\<close>

text \<open>
  The configuration file is taken as parsed and well typed: each entry is absent or a string
  (a list of strings for the addressees). \<open>os.getenv(key, default)\<close> gives the variable when
  it is set, the empty string included, and the default otherwise; \<open>config.get(key, default)\<close>
  gives the entry when the key is present.
\<close>

definition empty_config_file :: config_file where
  "empty_config_file =
     \<lparr>cf_anthropic_api_key = None, cf_google_credentials_path = None, cf_base_folder_id = None,
      cf_from_email = None, cf_internal_notification_emails = None, cf_company_name = None,
      cf_signature_name = None, cf_signature_title = None, cf_phone_number = None,
      cf_support_url = None\<rparr>"

definition os_getenv :: "services \<Rightarrow> string \<Rightarrow> string option \<Rightarrow> string option" where
  "os_getenv sv key fallback = (case getenv sv key of Some v \<Rightarrow> Some v | None \<Rightarrow> fallback)"

definition dict_get :: "'a option \<Rightarrow> 'a \<Rightarrow> 'a" where
  "dict_get entry fallback = (case entry of Some v \<Rightarrow> v | None \<Rightarrow> fallback)"

text \<open>\<open>not value\<close> is false for a non-empty string only: \<open>None\<close> and \<open>''\<close> are both falsy.\<close>

definition truthy :: "string option \<Rightarrow> bool" where
  "truthy v = (case v of None \<Rightarrow> False | Some s \<Rightarrow> s \<noteq> [])"

definition required_fields :: "string list" where
  "required_fields = [''anthropic_api_key'', ''base_folder_id'', ''from_email'']"

text \<open>\<open>str(missing)\<close> for a list of keys: each key in single quotes, \<open>[\<close>, \<open>, \<close> and \<open>]\<close> around.\<close>

definition py_repr_list :: "string list \<Rightarrow> string" where
  "py_repr_list keys = ''['' @ join '', '' (map (\<lambda>k. [CHR 0x27] @ k @ [CHR 0x27]) keys) @ '']''"

text \<open>The string a required entry holds once the check has passed (never \<open>None\<close> there).\<close>

fun value_of :: "string option \<Rightarrow> string" where
  "value_of (Some s) = s"
| "value_of None = []"

definition missing_fields :: "services \<Rightarrow> config_file \<Rightarrow> string list" where
  "missing_fields sv config =
     (let final_config_get = (\<lambda>key.
            if key = ''anthropic_api_key''
              then os_getenv sv ''ANTHROPIC_API_KEY'' (cf_anthropic_api_key config)
            else if key = ''base_folder_id''
              then os_getenv sv ''BASE_FOLDER_ID'' (cf_base_folder_id config)
            else if key = ''from_email''
              then os_getenv sv ''FROM_EMAIL'' (cf_from_email config)
            else None)
      in filter (\<lambda>key. \<not> truthy (final_config_get key)) required_fields)"

definition load_config :: "services \<Rightarrow> string \<Rightarrow> exn + config" where
  "load_config sv path =
     (let config = (case read_config sv path of None \<Rightarrow> empty_config_file | Some c \<Rightarrow> c);
          missing = missing_fields sv config
      in if missing \<noteq> [] then
           Inl (Exn ''ValueError'' (''Missing required configuration: '' @ py_repr_list missing))
         else
           Inr \<lparr>anthropic_api_key =
                  value_of (os_getenv sv ''ANTHROPIC_API_KEY'' (cf_anthropic_api_key config)),
                google_credentials_path =
                  value_of (os_getenv sv ''GOOGLE_CREDENTIALS_PATH''
                    (Some (dict_get (cf_google_credentials_path config) ''credentials.json''))),
                base_folder_id =
                  value_of (os_getenv sv ''BASE_FOLDER_ID'' (cf_base_folder_id config)),
                from_email = value_of (os_getenv sv ''FROM_EMAIL'' (cf_from_email config)),
                internal_notification_emails =
                  dict_get (cf_internal_notification_emails config) [],
                company_name = dict_get (cf_company_name config) ''Your Company'',
                signature_name = dict_get (cf_signature_name config) ''Your Name'',
                signature_title = dict_get (cf_signature_title config) ''Your Title'',
                phone_number = dict_get (cf_phone_number config) ''Your Phone Number'',
                support_url = dict_get (cf_support_url config) ''https://your-website.com/contact''\<rparr>)"

subsection \<open>\<open>process_submission\<close>\<close>

text \<open>The body of the \<open>try\<close> block.\<close>

definition process_steps ::
  "services \<Rightarrow> config \<Rightarrow> DealSubmission \<Rightarrow> string \<Rightarrow> world \<Rightarrow> (exn + ProcessingResult) \<times> world" where
  "process_steps sv cfg submission document_path w =
     (case check_duplicate_project sv cfg (email submission) (project_name submission)
             (logger INFO (''Processing submission for '' @ project_name submission) w) of
        (True, w1) \<Rightarrow>
          (Inr \<lparr>project_folder_id = [], underwrite_doc_id = [], kiq_doc_id = [],
                duplicate_detected = True\<rparr>,
           send_duplicate_notification sv cfg submission
             (logger INFO (''Duplicate detected for '' @ project_name submission) w1))
      | (False, w1) \<Rightarrow>
          (case create_project_structure sv cfg submission w1 of
             (Inl e, w2) \<Rightarrow> (Inl e, w2)
           | (Inr (project_folder, preunderwrite_folder, kiq_folder), w2) \<Rightarrow>
               (case upload_document sv document_path preunderwrite_folder
                       (Some (email submission @ '' - '' @ project_name submission @ '' - Original''))
                       w2 of
                  (Inl e, w3) \<Rightarrow> (Inl e, w3)
                | (Inr uploaded_doc, w3) \<Rightarrow>
                    (case extract_document_text sv uploaded_doc
                            (logger INFO ''Extracting document text...'' w3) of
                       (document_text, w4) \<Rightarrow>
                    (case generate_underwrite_analysis sv document_text
                            (logger INFO ''Generating underwriting analysis...'' w4) of
                       (underwrite_analysis, w5) \<Rightarrow>
                    (case create_document sv
                            (email submission @ '' - '' @ project_name submission @ '' - '' @
                             company_name cfg @ '' Underwrite'')
                            underwrite_analysis preunderwrite_folder w5 of
                       (Inl e, w6) \<Rightarrow> (Inl e, w6)
                     | (Inr underwrite_doc, w6) \<Rightarrow>
                    (case generate_kiq_questions sv underwrite_analysis
                            (logger INFO ''Generating KIQ questions...'' w6) of
                       (kiq_questions, w7) \<Rightarrow>
                    (case create_document sv
                            (email submission @ '' - '' @ project_name submission @ '' - KIQ_1'')
                            kiq_questions kiq_folder w7 of
                       (Inl e, w8) \<Rightarrow> (Inl e, w8)
                     | (Inr kiq_doc, w8) \<Rightarrow>
                         (let project_link = ''https://drive.google.com/drive/folders/'' @ project_folder;
                              underwrite_link = ''https://docs.google.com/document/d/'' @ underwrite_doc;
                              kiq_link = ''https://docs.google.com/document/d/'' @ kiq_doc
                          in (Inr \<lparr>project_folder_id = project_folder,
                                    underwrite_doc_id = underwrite_doc, kiq_doc_id = kiq_doc,
                                    duplicate_detected = False\<rparr>,
                              logger INFO
                                (''Successfully processed submission for '' @ project_name submission)
                                (send_internal_notification sv cfg submission project_link
                                   underwrite_link kiq_link
                                   (send_client_email sv cfg submission underwrite_link kiq_link
                                      w8))))))))))))"

text \<open>The handler of the \<open>try\<close> block: the exception is logged and raised again as it is.\<close>

definition process_submission ::
  "services \<Rightarrow> config \<Rightarrow> DealSubmission \<Rightarrow> string \<Rightarrow> world \<Rightarrow> (exn + ProcessingResult) \<times> world" where
  "process_submission sv cfg submission document_path w =
     (case process_steps sv cfg submission document_path w of
        (Inl e, w') \<Rightarrow> (Inl e, logger ERROR (''Failed to process submission: '' @ exn_text e) w')
      | (Inr result, w') \<Rightarrow> (Inr result, w'))"

subsection \<open>Start-up\<close>

text \<open>
  \<open>DealProcessor.__init__\<close>: the configuration is loaded, then the workspace manager
  authenticates with the credentials path. The processor is its configuration.
\<close>

definition DealProcessor_init :: "services \<Rightarrow> string \<Rightarrow> world \<Rightarrow> (exn + config) \<times> world" where
  "DealProcessor_init sv path w =
     (case load_config sv path of
        Inl e \<Rightarrow> (Inl e, w)
      | Inr cfg \<Rightarrow>
          (case perform sv (Authenticate (google_credentials_path cfg)) w of
             (Some e, w1) \<Rightarrow> (Inl e, w1)
           | (None, w1) \<Rightarrow> (Inr cfg, w1)))"

record args =
  arg_setup :: bool
  arg_test :: bool
  arg_config :: string

definition test_submission :: DealSubmission where
  "test_submission =
     \<lparr>email = ''test@example.com'', first_name = ''Test'', project_name = ''Sample Project'',
      document_file = ''sample.pdf'', submission_id = None, created_at = None\<rparr>"

text \<open>
  \<open>main\<close>, without what it prints and without the sample file that \<open>--setup\<close> writes. Any
  exception of the start-up or of the test run is logged there and ends the program.
\<close>

definition main :: "services \<Rightarrow> args \<Rightarrow> world \<Rightarrow> world" where
  "main sv a w =
     (if arg_setup a then w
      else case DealProcessor_init sv (arg_config a) w of
             (Inl e, w1) \<Rightarrow> logger ERROR (''Application error: '' @ exn_text e) w1
           | (Inr cfg, w1) \<Rightarrow>
               if arg_test a then
                 (case process_submission sv cfg test_submission ''test_document.pdf'' w1 of
                    (Inl e, w2) \<Rightarrow> logger ERROR (''Application error: '' @ exn_text e) w2
                  | (Inr result, w2) \<Rightarrow> w2)
               else w1)"

section \<open>Vocabulary of the properties\<close>

text \<open>
  The calls whose exception \<open>process_submission\<close> does not absorb: those issued by
  \<open>create_project_structure\<close>, \<open>upload_document\<close> and \<open>create_document\<close>, whose handlers
  log and raise again.
\<close>

fun aborts :: "call \<Rightarrow> bool" where
  "aborts (FilesCreate name mime parents) = True"
| "aborts (OpenFile file_path) = True"
| "aborts (MediaUpload name mime parents file_path convert) = True"
| "aborts (DocsCreate title) = True"
| "aborts (DocsBatchUpdate doc_id content) = True"
| "aborts (FilesUpdate i add remove) = True"
| "aborts c = False"

text \<open>
  The same collaborators with other answers of the mail service: \<open>f\<close> decides which sends
  raise, everything else is as before.
\<close>

definition with_mail_failures :: "(call list \<Rightarrow> mail \<Rightarrow> exn option) \<Rightarrow> services \<Rightarrow> services" where
  "with_mail_failures f sv =
     sv\<lparr>raises := (\<lambda>h c. case c of GmailSend m \<Rightarrow> f h m | _ \<Rightarrow> raises sv h c)\<rparr>"

text \<open>
  A text made of the words \<open>ws\<close> with the separator runs \<open>seps\<close> between them: the first
  word, the first run, the second word, and so on.
\<close>

fun interleave :: "string list \<Rightarrow> string list \<Rightarrow> string" where
  "interleave (w # v # ws) (s # seps) = w @ s @ interleave (v # ws) seps"
| "interleave (w # ws) seps = w"
| "interleave [] seps = []"

text \<open>
  Modelled from the spec: the matching of the document store is not part of the program.
  The specification names the query \<open>findByNameContaining(parent, substring)\<close>;
  \<open>contains_substring term name\<close> holds when \<open>term\<close> occurs in \<open>name\<close> as a contiguous piece.
\<close>

fun starts_with :: "string \<Rightarrow> string \<Rightarrow> bool" where
  "starts_with s [] = True"
| "starts_with [] (c # t) = False"
| "starts_with (a # s) (c # t) = (a = c \<and> starts_with s t)"

fun contains_substring :: "string \<Rightarrow> string \<Rightarrow> bool" where
  "contains_substring t [] = (t = [])"
| "contains_substring t (c # s) = (starts_with (c # s) t \<or> contains_substring t s)"

text \<open>
  A store that matches word by word instead: the term is cut at the separators, and every
  word of it has to occur in the name.
\<close>

definition matches_every_word :: "string \<Rightarrow> string \<Rightarrow> bool" where
  "matches_every_word name term =
     list_all (\<lambda>word. contains_substring word name) (filter (\<lambda>word. word \<noteq> []) (re_split term))"

text \<open>
  The shape the specification promises for the question document, in its words: exactly
  fifteen numbered entries (lines that start with a number and a dot), the first two being
  the mandatory questions verbatim.
\<close>

fun split_lines :: "string \<Rightarrow> string list" where
  "split_lines [] = [[]]"
| "split_lines (c # cs) =
     (if c = CHR ''\<newline>'' then [] # split_lines cs
      else (case split_lines cs of [] \<Rightarrow> [[c]] | l # ls \<Rightarrow> (c # l) # ls))"

definition is_digit :: "char \<Rightarrow> bool" where
  "is_digit c = (48 \<le> (of_char c :: nat) \<and> (of_char c :: nat) \<le> 57)"

definition is_numbered_entry :: "string \<Rightarrow> bool" where
  "is_numbered_entry line =
     (let digits = takeWhile is_digit line
      in digits \<noteq> [] \<and> take 1 (drop (length digits) line) = ''.'')"

definition numbered_entries :: "string \<Rightarrow> string list" where
  "numbered_entries body = filter is_numbered_entry (split_lines body)"

definition fifteen_numbered_entries :: "string \<Rightarrow> bool" where
  "fifteen_numbered_entries body =
     (length (numbered_entries body) = 15 \<and>
      take 2 (numbered_entries body) =
        [''1. '' @ mandatory_question_1, ''2. '' @ mandatory_question_2])"

section \<open>Reference inputs\<close>

text \<open>The configuration that \<open>create_sample_config\<close> writes, as a file and as loaded.\<close>

definition sample_config_file :: config_file where
  "sample_config_file =
     \<lparr>cf_anthropic_api_key = Some ''your_anthropic_key'',
      cf_google_credentials_path = Some ''credentials.json'',
      cf_base_folder_id = Some ''your_drive_folder_id'',
      cf_from_email = Some ''your-email@company.com'',
      cf_internal_notification_emails = Some [''team@company.com'', ''manager@company.com''],
      cf_company_name = Some ''Your Company Name'',
      cf_signature_name = Some ''Your Name'',
      cf_signature_title = Some ''Your Title'',
      cf_phone_number = Some ''Your Phone Number'',
      cf_support_url = Some ''https://your-website.com/contact''\<rparr>"

definition sample_config :: config where
  "sample_config =
     \<lparr>anthropic_api_key = ''your_anthropic_key'',
      google_credentials_path = ''credentials.json'',
      base_folder_id = ''your_drive_folder_id'',
      from_email = ''your-email@company.com'',
      internal_notification_emails = [''team@company.com'', ''manager@company.com''],
      company_name = ''Your Company Name'',
      signature_name = ''Your Name'',
      signature_title = ''Your Title'',
      phone_number = ''Your Phone Number'',
      support_url = ''https://your-website.com/contact''\<rparr>"

definition empty_world :: world where
  "empty_world = \<lparr>drive = [], journal = [], logged = []\<rparr>"

text \<open>
  Identifiers of a test store: \<open>F\<close>, \<open>P\<close>, \<open>Q\<close> for the three folders, \<open>D\<close> for the upload,
  \<open>U\<close> and \<open>K\<close> for the first and the second document of a run, followed by one \<open>1\<close> for
  every duplicate check made so far (\<open>F1\<close> in the first run, \<open>F11\<close> in the second).
\<close>

definition is_files_list :: "call \<Rightarrow> bool" where
  "is_files_list c = (case c of FilesList q \<Rightarrow> True | _ \<Rightarrow> False)"

definition is_docs_create :: "call \<Rightarrow> bool" where
  "is_docs_create c = (case c of DocsCreate t \<Rightarrow> True | _ \<Rightarrow> False)"

definition demo_id :: "call list \<Rightarrow> call \<Rightarrow> string" where
  "demo_id h c =
     (case c of
        FilesCreate name mime parents \<Rightarrow>
          (if name = ''PRE-UNDERWRITE'' then ''P''
           else if name = ''KIQ SUBMISSIONS'' then ''Q'' else ''F'')
      | MediaUpload name mime parents file_path convert \<Rightarrow> ''D''
      | DocsCreate title \<Rightarrow> (if even (length (filter is_docs_create h)) then ''U'' else ''K'')
      | _ \<Rightarrow> ''X'')
     @ replicate (length (filter is_files_list h)) (CHR ''1'')"

text \<open>
  A test double of the collaborators: the given failures, the given \<open>name contains\<close>
  operator, a fixed export, a fixed generated text, no environment variable, no
  configuration file.
\<close>

definition demo_services ::
  "(call list \<Rightarrow> call \<Rightarrow> exn option) \<Rightarrow> (string \<Rightarrow> string \<Rightarrow> bool) \<Rightarrow> services" where
  "demo_services failures contains =
     \<lparr>raises = failures,
      new_id = demo_id,
      export_link = (\<lambda>h i. Some (''https://export.example/'' @ i)),
      downloaded = (\<lambda>h link. ''Solar farm\<newline>seeking   capital ''),
      generated = (\<lambda>h prompt. ''Happy to help!''),
      name_contains = contains,
      getenv = (\<lambda>key. None),
      read_config = (\<lambda>path. None)\<rparr>"

definition no_failures :: "call list \<Rightarrow> call \<Rightarrow> exn option" where
  "no_failures h c = None"

text \<open>Failures to inject: the generation service down for both stages, or for the first only.\<close>

definition generation_down :: "call list \<Rightarrow> call \<Rightarrow> exn option" where
  "generation_down h c =
     (case c of
        MessagesPost prompt \<Rightarrow> Some (Exn ''ConnectionError'' ''generation service unreachable'')
      | _ \<Rightarrow> None)"

definition analysis_down :: "call list \<Rightarrow> call \<Rightarrow> exn option" where
  "analysis_down h c =
     (case c of
        MessagesPost prompt \<Rightarrow>
          if take 21 prompt = ''As an industry expert''
          then Some (Exn ''ReadTimeout'' ''generation service timed out'') else None
      | _ \<Rightarrow> None)"


definition mail_down :: "call list \<Rightarrow> call \<Rightarrow> exn option" where
  "mail_down h c =
     (case c of
        GmailSend m \<Rightarrow> Some (Exn ''HttpError'' ''mail rejected'')
      | _ \<Rightarrow> None)"

section \<open>Proofs\<close>

subsection \<open>What each operation does to the world\<close>

lemma logger_fields [simp]:
  "drive (logger l m w) = drive w"
  "journal (logger l m w) = journal w"
  "logged (logger l m w) = logged w @ [(l, m)]"
  by (simp_all add: logger_def)

lemma perform_fields [simp]:
  "fst (perform sv c w) = raises sv (journal w) c"
  "drive (snd (perform sv c w)) = drive w"
  "journal (snd (perform sv c w)) = journal w @ [c]"
  "logged (snd (perform sv c w)) = logged w"
  by (simp_all add: perform_def)

lemma add_file_fields [simp]:
  "drive (add_file f w) = drive w @ [f]"
  "journal (add_file f w) = journal w"
  "logged (add_file f w) = logged w"
  by (simp_all add: add_file_def)

lemma move_file_fields [simp]:
  "journal (move_file i a r w) = journal w"
  "logged (move_file i a r w) = logged w"
  "length (drive (move_file i a r w)) = length (drive w)"
  by (simp_all add: move_file_def)

lemma create_folder_Inr:
  "create_folder sv name parent w = (Inr i, w') \<Longrightarrow>
     raises sv (journal w) (FilesCreate name (Some folder_mime) [parent]) = None \<and>
     i = new_id sv (journal w) (FilesCreate name (Some folder_mime) [parent]) \<and>
     journal w' = journal w @ [FilesCreate name (Some folder_mime) [parent]] \<and>
     drive w' = drive w @ [\<lparr>file_id = i, file_name = name, file_mime = Some folder_mime,
                             file_parents = [parent]\<rparr>] \<and>
     logged w' = logged w"
  by (auto simp: create_folder_def Let_def perform_def add_file_def split: option.splits)


lemma create_project_structure_Inr:
  "create_project_structure sv cfg s w = (Inr (F, P, K), w') \<Longrightarrow>
     journal w' = journal w @
       [FilesCreate (email s @ '' - '' @ project_name s) (Some folder_mime) [base_folder_id cfg],
        FilesCreate ''PRE-UNDERWRITE'' (Some folder_mime) [F],
        FilesCreate ''KIQ SUBMISSIONS'' (Some folder_mime) [F]] \<and>
     drive w' = drive w @
       [\<lparr>file_id = F, file_name = email s @ '' - '' @ project_name s,
         file_mime = Some folder_mime, file_parents = [base_folder_id cfg]\<rparr>,
        \<lparr>file_id = P, file_name = ''PRE-UNDERWRITE'', file_mime = Some folder_mime,
         file_parents = [F]\<rparr>,
        \<lparr>file_id = K, file_name = ''KIQ SUBMISSIONS'', file_mime = Some folder_mime,
         file_parents = [F]\<rparr>] \<and>
     F = new_id sv (journal w)
           (FilesCreate (email s @ '' - '' @ project_name s) (Some folder_mime) [base_folder_id cfg])"
  by (auto simp: create_project_structure_def split: prod.splits sum.splits
      dest!: create_folder_Inr)


lemma upload_document_Inr:
  "upload_document sv file_path folder filename w = (Inr i, w') \<Longrightarrow>
     (\<exists>name mime convert.
        journal w' = journal w @
          [OpenFile file_path, MediaUpload name mime [folder] file_path convert]) \<and>
     length (drive w') = Suc (length (drive w)) \<and> take (length (drive w)) (drive w') = drive w \<and>
     logged w' = logged w"
  by (auto simp: upload_document_def Let_def perform_def add_file_def
      split: prod.splits sum.splits option.splits if_splits)


lemma create_document_Inr:
  "create_document sv title content folder w = (Inr i, w') \<Longrightarrow>
     journal w' = journal w @
       [DocsCreate title, DocsBatchUpdate i content, FilesUpdate i folder ''root''] \<and>
     i = new_id sv (journal w) (DocsCreate title) \<and>
     length (drive w') = Suc (length (drive w)) \<and>
     logged w' = logged w"
  by (auto simp: create_document_def Let_def perform_def add_file_def move_file_def
      split: prod.splits sum.splits option.splits)


lemma extract_document_text_world:
  "extract_document_text sv i w = (d, w') \<Longrightarrow>
     drive w' = drive w \<and>
     (journal w' = journal w @ [FilesGet i] \<or>
      (\<exists>link. journal w' = journal w @ [FilesGet i, HttpGet link]))"
  by (auto simp: extract_document_text_def perform_def logger_def
      split: prod.splits option.splits if_splits)

lemma generate_underwrite_analysis_eq:
  "generate_underwrite_analysis sv d w = (a, w') \<Longrightarrow>
     a = (case raises sv (journal w) (MessagesPost (underwrite_prompt d)) of
            None \<Rightarrow> generated sv (journal w) (underwrite_prompt d)
          | Some e \<Rightarrow> analysis_failed) \<and>
     journal w' = journal w @ [MessagesPost (underwrite_prompt d)] \<and>
     drive w' = drive w"
  by (auto simp: generate_underwrite_analysis_def Let_def perform_def logger_def
      split: option.splits)

lemma generate_kiq_questions_eq:
  "generate_kiq_questions sv u w = (q, w') \<Longrightarrow>
     q = (case raises sv (journal w) (MessagesPost (kiq_prompt u)) of
            None \<Rightarrow> generated sv (journal w) (kiq_prompt u)
          | Some e \<Rightarrow> questions_failed) \<and>
     journal w' = journal w @ [MessagesPost (kiq_prompt u)] \<and>
     drive w' = drive w"
  by (auto simp: generate_kiq_questions_def Let_def perform_def logger_def
      split: option.splits)

lemma send_client_email_fields:
  "journal (send_client_email sv cfg s ul kl w) = journal w @ [GmailSend (client_email cfg s ul kl)]"
  "drive (send_client_email sv cfg s ul kl w) = drive w"
  by (auto simp: send_client_email_def perform_def logger_def split: option.splits)

lemma send_each_world:
  "send_each sv ms w = (r, w') \<Longrightarrow>
     drive w' = drive w \<and> logged w' = logged w \<and>
     (\<exists>n. journal w' = journal w @ map GmailSend (take n ms))"
proof (induction ms arbitrary: w)
  case Nil
  then show ?case by simp
next
  case (Cons m ms)
  show ?case
  proof (cases "raises sv (journal w) (GmailSend m)")
    case None
    then have rest: "send_each sv ms (snd (perform sv (GmailSend m) w)) = (r, w')"
      using Cons.prems by (simp add: perform_def)
    from Cons.IH [OF rest] obtain n where
      "drive w' = drive w" "logged w' = logged w"
      "journal w' = journal w @ GmailSend m # map GmailSend (take n ms)"
      by auto
    then have "journal w' = journal w @ map GmailSend (take (Suc n) (m # ms))"
      by simp
    with \<open>drive w' = drive w\<close> \<open>logged w' = logged w\<close> show ?thesis by blast
  next
    case (Some e)
    then have "w' = snd (perform sv (GmailSend m) w)"
      using Cons.prems by (auto simp: perform_def)
    then have "drive w' = drive w" "logged w' = logged w"
      "journal w' = journal w @ map GmailSend (take 1 (m # ms))"
      by simp_all
    then show ?thesis by blast
  qed
qed

lemma send_internal_notification_fields:
  "drive (send_internal_notification sv cfg s pl ul kl w) = drive w \<and>
   (\<exists>n. journal (send_internal_notification sv cfg s pl ul kl w) =
          journal w @ map GmailSend
            (take n (map (internal_notification cfg s pl ul kl) (internal_notification_emails cfg))))"
proof -
  obtain r w' where run:
    "send_each sv (map (internal_notification cfg s pl ul kl) (internal_notification_emails cfg)) w
       = (r, w')"
    by (cases "send_each sv (map (internal_notification cfg s pl ul kl)
                 (internal_notification_emails cfg)) w")
  from send_each_world [OF run] show ?thesis
    using run by (auto simp: send_internal_notification_def split: option.splits)
qed

lemma process_steps_success:
  assumes "process_steps sv cfg s path w = (Inr r, w')" and "\<not> duplicate_detected r"
  obtains F P K w1 w2 U0 w3 d w4 a w5 U w6 q w7 Kd w8 where
    "check_duplicate_project sv cfg (email s) (project_name s)
       (logger INFO (''Processing submission for '' @ project_name s) w) = (False, w1)"
    "create_project_structure sv cfg s w1 = (Inr (F, P, K), w2)"
    "upload_document sv path P
       (Some (email s @ '' - '' @ project_name s @ '' - Original'')) w2 = (Inr U0, w3)"
    "extract_document_text sv U0 (logger INFO ''Extracting document text...'' w3) = (d, w4)"
    "generate_underwrite_analysis sv d
       (logger INFO ''Generating underwriting analysis...'' w4) = (a, w5)"
    "create_document sv
       (email s @ '' - '' @ project_name s @ '' - '' @ company_name cfg @ '' Underwrite'')
       a P w5 = (Inr U, w6)"
    "generate_kiq_questions sv a (logger INFO ''Generating KIQ questions...'' w6) = (q, w7)"
    "create_document sv (email s @ '' - '' @ project_name s @ '' - KIQ_1'') q K w7 = (Inr Kd, w8)"
    "r = \<lparr>project_folder_id = F, underwrite_doc_id = U, kiq_doc_id = Kd,
          duplicate_detected = False\<rparr>"
    "w' = logger INFO (''Successfully processed submission for '' @ project_name s)
            (send_internal_notification sv cfg s
               (''https://drive.google.com/drive/folders/'' @ F)
               (''https://docs.google.com/document/d/'' @ U)
               (''https://docs.google.com/document/d/'' @ Kd)
               (send_client_email sv cfg s
                  (''https://docs.google.com/document/d/'' @ U)
                  (''https://docs.google.com/document/d/'' @ Kd) w8))"
  using assms
  by (auto simp: process_steps_def Let_def split: prod.splits sum.splits bool.splits)

lemma process_submission_Inr:
  "process_submission sv cfg s path w = (Inr r, w') \<longleftrightarrow> process_steps sv cfg s path w = (Inr r, w')"
  by (auto simp: process_submission_def split: prod.splits sum.splits)

lemma completed_run_journal:
  assumes run: "process_submission sv cfg s path w = (Inr r, w')"
    and nodup: "\<not> duplicate_detected r"
  obtains pre d a q P K n where
    "journal w' = journal w @ pre @
       [MessagesPost (underwrite_prompt d),
        DocsCreate (email s @ '' - '' @ project_name s @ '' - '' @ company_name cfg @ '' Underwrite''),
        DocsBatchUpdate (underwrite_doc_id r) a,
        FilesUpdate (underwrite_doc_id r) P ''root'',
        MessagesPost (kiq_prompt a),
        DocsCreate (email s @ '' - '' @ project_name s @ '' - KIQ_1''),
        DocsBatchUpdate (kiq_doc_id r) q,
        FilesUpdate (kiq_doc_id r) K ''root'',
        GmailSend (client_email cfg s
          (''https://docs.google.com/document/d/'' @ underwrite_doc_id r)
          (''https://docs.google.com/document/d/'' @ kiq_doc_id r))] @
       map GmailSend (take n (map (internal_notification cfg s
          (''https://drive.google.com/drive/folders/'' @ project_folder_id r)
          (''https://docs.google.com/document/d/'' @ underwrite_doc_id r)
          (''https://docs.google.com/document/d/'' @ kiq_doc_id r))
          (internal_notification_emails cfg)))"
    "a = (case raises sv (journal w @ pre) (MessagesPost (underwrite_prompt d)) of
            None \<Rightarrow> generated sv (journal w @ pre) (underwrite_prompt d)
          | Some e \<Rightarrow> analysis_failed)"
    "q = (case raises sv (journal w @ pre @
                 [MessagesPost (underwrite_prompt d),
                  DocsCreate (email s @ '' - '' @ project_name s @ '' - '' @ company_name cfg @
                              '' Underwrite''),
                  DocsBatchUpdate (underwrite_doc_id r) a,
                  FilesUpdate (underwrite_doc_id r) P ''root''])
               (MessagesPost (kiq_prompt a)) of
            None \<Rightarrow> generated sv (journal w @ pre @
                 [MessagesPost (underwrite_prompt d),
                  DocsCreate (email s @ '' - '' @ project_name s @ '' - '' @ company_name cfg @
                              '' Underwrite''),
                  DocsBatchUpdate (underwrite_doc_id r) a,
                  FilesUpdate (underwrite_doc_id r) P ''root'']) (kiq_prompt a)
          | Some e \<Rightarrow> questions_failed)"
    "\<forall>c\<in>set pre. (\<forall>p. c \<noteq> MessagesPost p) \<and> (\<forall>m. c \<noteq> GmailSend m) \<and>
                    (\<forall>i t. c \<noteq> DocsBatchUpdate i t)"
    "FilesCreate ''PRE-UNDERWRITE'' (Some folder_mime) [project_folder_id r] \<in> set pre"
proof -
  from run have steps: "process_steps sv cfg s path w = (Inr r, w')"
    by (simp add: process_submission_Inr)
  from steps nodup obtain F P K w1 w2 U0 w3 d w4 a w5 U w6 q w7 Kd w8 where
    chk: "check_duplicate_project sv cfg (email s) (project_name s)
       (logger INFO (''Processing submission for '' @ project_name s) w) = (False, w1)"
    and cps: "create_project_structure sv cfg s w1 = (Inr (F, P, K), w2)"
    and upl: "upload_document sv path P
       (Some (email s @ '' - '' @ project_name s @ '' - Original'')) w2 = (Inr U0, w3)"
    and ext: "extract_document_text sv U0 (logger INFO ''Extracting document text...'' w3) = (d, w4)"
    and gen1: "generate_underwrite_analysis sv d
       (logger INFO ''Generating underwriting analysis...'' w4) = (a, w5)"
    and doc1: "create_document sv
       (email s @ '' - '' @ project_name s @ '' - '' @ company_name cfg @ '' Underwrite'')
       a P w5 = (Inr U, w6)"
    and gen2: "generate_kiq_questions sv a (logger INFO ''Generating KIQ questions...'' w6) = (q, w7)"
    and doc2: "create_document sv (email s @ '' - '' @ project_name s @ '' - KIQ_1'') q K w7 = (Inr Kd, w8)"
    and r: "r = \<lparr>project_folder_id = F, underwrite_doc_id = U, kiq_doc_id = Kd,
          duplicate_detected = False\<rparr>"
    and w': "w' = logger INFO (''Successfully processed submission for '' @ project_name s)
            (send_internal_notification sv cfg s
               (''https://drive.google.com/drive/folders/'' @ F)
               (''https://docs.google.com/document/d/'' @ U)
               (''https://docs.google.com/document/d/'' @ Kd)
               (send_client_email sv cfg s
                  (''https://docs.google.com/document/d/'' @ U)
                  (''https://docs.google.com/document/d/'' @ Kd) w8))"
    by (rule process_steps_success)
  have j1: "journal w1 = journal w @ [FilesList (duplicate_query cfg (email s) (project_name s))]"
    using chk by (auto simp: check_duplicate_project_def perform_def logger_def split: option.splits)
  note j2 = create_project_structure_Inr [OF cps]
  from upload_document_Inr [OF upl] obtain name mime convert where
    j3: "journal w3 = journal w2 @ [OpenFile path, MediaUpload name mime [P] path convert]"
    by auto
  from extract_document_text_world [OF ext] obtain fetch where
    j4: "journal w4 = journal w3 @ fetch" and
    fetch: "fetch = [FilesGet U0] \<or> (\<exists>link. fetch = [FilesGet U0, HttpGet link])"
    by auto
  let ?t1 = "email s @ '' - '' @ project_name s @ '' - '' @ company_name cfg @ '' Underwrite''"
  let ?t2 = "email s @ '' - '' @ project_name s @ '' - KIQ_1''"
  let ?pre = "[FilesList (duplicate_query cfg (email s) (project_name s)),
       FilesCreate (email s @ '' - '' @ project_name s) (Some folder_mime) [base_folder_id cfg],
       FilesCreate ''PRE-UNDERWRITE'' (Some folder_mime) [F],
       FilesCreate ''KIQ SUBMISSIONS'' (Some folder_mime) [F],
       OpenFile path, MediaUpload name mime [P] path convert] @ fetch"
  let ?first = "[MessagesPost (underwrite_prompt d), DocsCreate ?t1, DocsBatchUpdate U a,
       FilesUpdate U P ''root'']"
  have h4: "journal (logger INFO ''Generating underwriting analysis...'' w4) = journal w @ ?pre"
    using j1 j2 j3 j4 by simp
  have a_eq: "a = (case raises sv (journal w @ ?pre) (MessagesPost (underwrite_prompt d)) of
            None \<Rightarrow> generated sv (journal w @ ?pre) (underwrite_prompt d)
          | Some e \<Rightarrow> analysis_failed)"
    using generate_underwrite_analysis_eq [OF gen1] unfolding h4 by (rule conjunct1)
  have h5: "journal w5 = journal w @ ?pre @ [MessagesPost (underwrite_prompt d)]"
    using generate_underwrite_analysis_eq [OF gen1] unfolding h4 by simp
  have h6: "journal (logger INFO ''Generating KIQ questions...'' w6) = journal w @ ?pre @ ?first"
    using create_document_Inr [OF doc1] h5 by simp
  have q_eq: "q = (case raises sv (journal w @ ?pre @ ?first) (MessagesPost (kiq_prompt a)) of
            None \<Rightarrow> generated sv (journal w @ ?pre @ ?first) (kiq_prompt a)
          | Some e \<Rightarrow> questions_failed)"
    using generate_kiq_questions_eq [OF gen2] unfolding h6 by (rule conjunct1)
  have h7: "journal w7 = journal w @ ?pre @ ?first @ [MessagesPost (kiq_prompt a)]"
    using generate_kiq_questions_eq [OF gen2] unfolding h6 by simp
  have h8: "journal w8 = journal w @ ?pre @ ?first @
       [MessagesPost (kiq_prompt a), DocsCreate ?t2, DocsBatchUpdate Kd q, FilesUpdate Kd K ''root'']"
    using create_document_Inr [OF doc2] h7 by simp
  obtain n where jw': "journal w' = journal w8 @
       GmailSend (client_email cfg s (''https://docs.google.com/document/d/'' @ U)
                    (''https://docs.google.com/document/d/'' @ Kd)) #
       map GmailSend (take n (map (internal_notification cfg s
          (''https://drive.google.com/drive/folders/'' @ F)
          (''https://docs.google.com/document/d/'' @ U)
          (''https://docs.google.com/document/d/'' @ Kd))
          (internal_notification_emails cfg)))"
    using send_internal_notification_fields
      [of sv cfg s "''https://drive.google.com/drive/folders/'' @ F"
          "''https://docs.google.com/document/d/'' @ U" "''https://docs.google.com/document/d/'' @ Kd"
          "send_client_email sv cfg s (''https://docs.google.com/document/d/'' @ U)
                  (''https://docs.google.com/document/d/'' @ Kd) w8"]
    by (auto simp: w' send_client_email_fields)
  have ids: "underwrite_doc_id r = U" "kiq_doc_id r = Kd" "project_folder_id r = F"
    by (simp_all add: r)
  have journal_eq: "journal w' = journal w @ ?pre @
       [MessagesPost (underwrite_prompt d), DocsCreate ?t1,
        DocsBatchUpdate (underwrite_doc_id r) a,
        FilesUpdate (underwrite_doc_id r) P ''root'',
        MessagesPost (kiq_prompt a), DocsCreate ?t2,
        DocsBatchUpdate (kiq_doc_id r) q,
        FilesUpdate (kiq_doc_id r) K ''root'',
        GmailSend (client_email cfg s
          (''https://docs.google.com/document/d/'' @ underwrite_doc_id r)
          (''https://docs.google.com/document/d/'' @ kiq_doc_id r))] @
       map GmailSend (take n (map (internal_notification cfg s
          (''https://drive.google.com/drive/folders/'' @ project_folder_id r)
          (''https://docs.google.com/document/d/'' @ underwrite_doc_id r)
          (''https://docs.google.com/document/d/'' @ kiq_doc_id r))
          (internal_notification_emails cfg)))"
    unfolding ids jw' h8 by simp
  have pre_no_post: "\<forall>c\<in>set ?pre. (\<forall>p. c \<noteq> MessagesPost p) \<and> (\<forall>m. c \<noteq> GmailSend m) \<and>
                    (\<forall>i t. c \<noteq> DocsBatchUpdate i t)"
    using fetch by auto
  have pre_folder: "FilesCreate ''PRE-UNDERWRITE'' (Some folder_mime) [project_folder_id r] \<in> set ?pre"
    unfolding ids by simp
  have a_eq': "a = (case raises sv (journal w @ ?pre) (MessagesPost (underwrite_prompt d)) of
            None \<Rightarrow> generated sv (journal w @ ?pre) (underwrite_prompt d)
          | Some e \<Rightarrow> analysis_failed)"
    by (rule a_eq)
  have q_eq': "q = (case raises sv (journal w @ ?pre @
                 [MessagesPost (underwrite_prompt d), DocsCreate ?t1,
                  DocsBatchUpdate (underwrite_doc_id r) a,
                  FilesUpdate (underwrite_doc_id r) P ''root''])
               (MessagesPost (kiq_prompt a)) of
            None \<Rightarrow> generated sv (journal w @ ?pre @
                 [MessagesPost (underwrite_prompt d), DocsCreate ?t1,
                  DocsBatchUpdate (underwrite_doc_id r) a,
                  FilesUpdate (underwrite_doc_id r) P ''root'']) (kiq_prompt a)
          | Some e \<Rightarrow> questions_failed)"
    using q_eq unfolding ids .
  show ?thesis
    by (rule that [OF journal_eq a_eq' q_eq' pre_no_post pre_folder])
qed

lemma completed_run_ids:
  assumes "process_submission sv cfg s path w = (Inr r, w')" and "\<not> duplicate_detected r"
  shows "(\<exists>h c. project_folder_id r = new_id sv h c) \<and>
         (\<exists>h c. underwrite_doc_id r = new_id sv h c) \<and>
         (\<exists>h c. kiq_doc_id r = new_id sv h c)"
proof -
  from assms(1) have steps: "process_steps sv cfg s path w = (Inr r, w')"
    by (simp add: process_submission_Inr)
  from steps assms(2) obtain F P K w1 w2 a w5 U w6 q w7 Kd w8 where
    cps: "create_project_structure sv cfg s w1 = (Inr (F, P, K), w2)"
    and doc1: "create_document sv
       (email s @ '' - '' @ project_name s @ '' - '' @ company_name cfg @ '' Underwrite'')
       a P w5 = (Inr U, w6)"
    and doc2: "create_document sv (email s @ '' - '' @ project_name s @ '' - KIQ_1'') q K w7 = (Inr Kd, w8)"
    and r: "r = \<lparr>project_folder_id = F, underwrite_doc_id = U, kiq_doc_id = Kd,
          duplicate_detected = False\<rparr>"
    by (rule process_steps_success)
  have "\<exists>h c. F = new_id sv h c"
    using create_project_structure_Inr [OF cps] by blast
  moreover have "\<exists>h c. U = new_id sv h c"
    using create_document_Inr [OF doc1] by blast
  moreover have "\<exists>h c. Kd = new_id sv h c"
    using create_document_Inr [OF doc2] by blast
  ultimately show ?thesis
    by (simp add: r)
qed


subsection \<open>The duplicate check\<close>

lemma check_duplicate_logger:
  "fst (check_duplicate_project sv cfg a n (logger l m w)) =
   fst (check_duplicate_project sv cfg a n w)"
  by (simp add: check_duplicate_project_def perform_def split: option.splits)

lemma check_duplicate_world:
  "snd (check_duplicate_project sv cfg a n w) =
     (case raises sv (journal w) (FilesList (duplicate_query cfg a n)) of
        None \<Rightarrow> w\<lparr>journal := journal w @ [FilesList (duplicate_query cfg a n)]\<rparr>
      | Some e \<Rightarrow>
          logger ERROR (''Duplicate check failed: '' @ exn_text e)
            (w\<lparr>journal := journal w @ [FilesList (duplicate_query cfg a n)]\<rparr>))"
  by (simp add: check_duplicate_project_def perform_def split: option.splits)

lemma check_duplicate_found:
  assumes "fst (check_duplicate_project sv cfg a n w)"
  shows "check_duplicate_project sv cfg a n w =
           (True, w\<lparr>journal := journal w @ [FilesList (duplicate_query cfg a n)]\<rparr>)"
  using assms by (simp add: check_duplicate_project_def perform_def split: option.splits)

lemma duplicate_flag_ids:
  "fst (process_submission sv cfg s path w) = Inr r \<Longrightarrow> duplicate_detected r \<Longrightarrow>
     project_folder_id r = [] \<and> underwrite_doc_id r = [] \<and> kiq_doc_id r = []"
  by (auto simp: process_submission_def process_steps_def Let_def
      split: prod.splits sum.splits bool.splits)


subsection \<open>Runs that complete\<close>

lemma create_folder_ok:
  assumes "\<And>h c. aborts c \<Longrightarrow> raises sv h c = None"
  shows "\<exists>i w'. create_folder sv name parent w = (Inr i, w')"
  by (simp add: create_folder_def perform_def Let_def assms)

lemma create_project_structure_ok:
  assumes "\<And>h c. aborts c \<Longrightarrow> raises sv h c = None"
  shows "\<exists>F P K w'. create_project_structure sv cfg s w = (Inr (F, P, K), w')"
  by (simp add: create_project_structure_def create_folder_def perform_def Let_def assms)

lemma upload_document_ok:
  assumes "\<And>h c. aborts c \<Longrightarrow> raises sv h c = None"
  shows "\<exists>i w'. upload_document sv file_path folder filename w = (Inr i, w')"
  by (simp add: upload_document_def perform_def Let_def assms)

lemma create_document_ok:
  assumes "\<And>h c. aborts c \<Longrightarrow> raises sv h c = None"
  shows "\<exists>i w'. create_document sv title content folder w = (Inr i, w')"
  by (simp add: create_document_def perform_def Let_def assms)

lemma run_completes:
  assumes nomatch: "\<not> fst (check_duplicate_project sv cfg (email s) (project_name s) w)"
    and store: "\<And>h c. aborts c \<Longrightarrow> raises sv h c = None"
  obtains r w' where "process_submission sv cfg s path w = (Inr r, w')"
    and "\<not> duplicate_detected r"
proof -
  let ?w0 = "logger INFO (''Processing submission for '' @ project_name s) w"
  have "\<not> fst (check_duplicate_project sv cfg (email s) (project_name s) ?w0)"
    using nomatch by (simp add: check_duplicate_logger)
  then have chk: "check_duplicate_project sv cfg (email s) (project_name s) ?w0 =
      (False, snd (check_duplicate_project sv cfg (email s) (project_name s) ?w0))"
    by (simp add: prod_eq_iff)
  define w1 where "w1 = snd (check_duplicate_project sv cfg (email s) (project_name s) ?w0)"
  note chk = chk [folded w1_def]
  obtain F P K w2 where cps: "create_project_structure sv cfg s w1 = (Inr (F, P, K), w2)"
    using create_project_structure_ok [OF store] by blast
  obtain U0 w3 where upl: "upload_document sv path P
       (Some (email s @ '' - '' @ project_name s @ '' - Original'')) w2 = (Inr U0, w3)"
    using upload_document_ok [OF store] by blast
  obtain d w4 where ext:
    "extract_document_text sv U0 (logger INFO ''Extracting document text...'' w3) = (d, w4)"
    by (cases "extract_document_text sv U0 (logger INFO ''Extracting document text...'' w3)")
  obtain a w5 where gen1: "generate_underwrite_analysis sv d
       (logger INFO ''Generating underwriting analysis...'' w4) = (a, w5)"
    by (cases "generate_underwrite_analysis sv d
       (logger INFO ''Generating underwriting analysis...'' w4)")
  obtain U w6 where doc1: "create_document sv
       (email s @ '' - '' @ project_name s @ '' - '' @ company_name cfg @ '' Underwrite'')
       a P w5 = (Inr U, w6)"
    using create_document_ok [OF store] by blast
  obtain q w7 where gen2:
    "generate_kiq_questions sv a (logger INFO ''Generating KIQ questions...'' w6) = (q, w7)"
    by (cases "generate_kiq_questions sv a (logger INFO ''Generating KIQ questions...'' w6)")
  obtain Kd w8 where doc2:
    "create_document sv (email s @ '' - '' @ project_name s @ '' - KIQ_1'') q K w7 = (Inr Kd, w8)"
    using create_document_ok [OF store] by blast
  have "\<exists>w'. process_submission sv cfg s path w =
          (Inr \<lparr>project_folder_id = F, underwrite_doc_id = U, kiq_doc_id = Kd,
                duplicate_detected = False\<rparr>, w')"
    by (simp only: process_submission_def process_steps_def chk cps upl ext gen1 doc1 gen2 doc2
        prod.case sum.case bool.case Let_def) (rule exI, rule refl)
  then show ?thesis
    using that by auto
qed


subsection \<open>The files a completed run leaves in the store\<close>







subsection \<open>The reference run\<close>

lemma demo_no_match:
  "\<not> fst (check_duplicate_project (demo_services failures contains) sample_config
            (email test_submission) (project_name test_submission) empty_world)"
  by (simp add: check_duplicate_project_def perform_def matching_files_def empty_world_def
      split: option.splits)

lemma demo_id_not_empty: "demo_id h c \<noteq> []"
  by (simp add: demo_id_def split: call.splits)









text \<open>
  C2. When the duplicate check finds no match and no folder, upload or document call fails,
  \<open>process_submission\<close> completes whatever the generation service does, in either stage: it
  returns an outcome with the duplicate flag clear whose three identifiers are the ones the
  store returned (non-empty when the store's identifiers are). The journal of the run shows
  the two stages: the first-stage prompt, the underwrite document with its text, the
  second-stage prompt, the KIQ document with its text. If the first-stage call raised, the
  text of the underwrite document is the fixed analysis placeholder; if the second-stage
  call raised, the text of the KIQ document is the fixed question placeholder; the two
  placeholders differ.
\<close>

theorem generation_failure_never_aborts:
  assumes nomatch: "\<not> fst (check_duplicate_project sv cfg (email s) (project_name s) w)"
    and store: "\<forall>h c. aborts c \<longrightarrow> raises sv h c = None"
  shows "\<exists>r w'.
     process_submission sv cfg s path w = (Inr r, w') \<and> \<not> duplicate_detected r \<and>
     (\<exists>h c. project_folder_id r = new_id sv h c) \<and>
     (\<exists>h c. underwrite_doc_id r = new_id sv h c) \<and>
     (\<exists>h c. kiq_doc_id r = new_id sv h c) \<and>
     ((\<forall>h c. new_id sv h c \<noteq> []) \<longrightarrow>
        project_folder_id r \<noteq> [] \<and> underwrite_doc_id r \<noteq> [] \<and> kiq_doc_id r \<noteq> []) \<and>
     (\<exists>pre d a q P K rest.
        journal w' = journal w @ pre @
          [MessagesPost (underwrite_prompt d),
           DocsCreate (email s @ '' - '' @ project_name s @ '' - '' @ company_name cfg @
                       '' Underwrite''),
           DocsBatchUpdate (underwrite_doc_id r) a,
           FilesUpdate (underwrite_doc_id r) P ''root'',
           MessagesPost (kiq_prompt a),
           DocsCreate (email s @ '' - '' @ project_name s @ '' - KIQ_1''),
           DocsBatchUpdate (kiq_doc_id r) q,
           FilesUpdate (kiq_doc_id r) K ''root''] @ rest \<and>
        (\<forall>c\<in>set pre. (\<forall>p. c \<noteq> MessagesPost p) \<and> (\<forall>i t. c \<noteq> DocsBatchUpdate i t)) \<and>
        (\<forall>c\<in>set rest. (\<forall>p. c \<noteq> MessagesPost p) \<and> (\<forall>i t. c \<noteq> DocsBatchUpdate i t)) \<and>
        (raises sv (journal w @ pre) (MessagesPost (underwrite_prompt d)) \<noteq> None \<longrightarrow>
           a = analysis_failed) \<and>
        (raises sv
           (journal w @ pre @
              [MessagesPost (underwrite_prompt d),
               DocsCreate (email s @ '' - '' @ project_name s @ '' - '' @ company_name cfg @
                           '' Underwrite''),
               DocsBatchUpdate (underwrite_doc_id r) a,
               FilesUpdate (underwrite_doc_id r) P ''root''])
           (MessagesPost (kiq_prompt a)) \<noteq> None \<longrightarrow>
           q = questions_failed)) \<and>
     analysis_failed \<noteq> questions_failed"
proof -
  from store have store': "\<And>h c. aborts c \<Longrightarrow> raises sv h c = None"
    by simp
  obtain r w' where run: "process_submission sv cfg s path w = (Inr r, w')"
    and nodup: "\<not> duplicate_detected r"
    by (rule run_completes [OF nomatch store'])
  let ?t1 = "email s @ '' - '' @ project_name s @ '' - '' @ company_name cfg @ '' Underwrite''"
  let ?t2 = "email s @ '' - '' @ project_name s @ '' - KIQ_1''"
  obtain pre d a q P K n where
    j: "journal w' = journal w @ pre @
       [MessagesPost (underwrite_prompt d), DocsCreate ?t1,
        DocsBatchUpdate (underwrite_doc_id r) a,
        FilesUpdate (underwrite_doc_id r) P ''root'',
        MessagesPost (kiq_prompt a), DocsCreate ?t2,
        DocsBatchUpdate (kiq_doc_id r) q,
        FilesUpdate (kiq_doc_id r) K ''root'',
        GmailSend (client_email cfg s
          (''https://docs.google.com/document/d/'' @ underwrite_doc_id r)
          (''https://docs.google.com/document/d/'' @ kiq_doc_id r))] @
       map GmailSend (take n (map (internal_notification cfg s
          (''https://drive.google.com/drive/folders/'' @ project_folder_id r)
          (''https://docs.google.com/document/d/'' @ underwrite_doc_id r)
          (''https://docs.google.com/document/d/'' @ kiq_doc_id r))
          (internal_notification_emails cfg)))"
    and a: "a = (case raises sv (journal w @ pre) (MessagesPost (underwrite_prompt d)) of
            None \<Rightarrow> generated sv (journal w @ pre) (underwrite_prompt d)
          | Some e \<Rightarrow> analysis_failed)"
    and q: "q = (case raises sv (journal w @ pre @
                 [MessagesPost (underwrite_prompt d), DocsCreate ?t1,
                  DocsBatchUpdate (underwrite_doc_id r) a,
                  FilesUpdate (underwrite_doc_id r) P ''root''])
               (MessagesPost (kiq_prompt a)) of
            None \<Rightarrow> generated sv (journal w @ pre @
                 [MessagesPost (underwrite_prompt d), DocsCreate ?t1,
                  DocsBatchUpdate (underwrite_doc_id r) a,
                  FilesUpdate (underwrite_doc_id r) P ''root'']) (kiq_prompt a)
          | Some e \<Rightarrow> questions_failed)"
    and pre: "\<forall>c\<in>set pre. (\<forall>p. c \<noteq> MessagesPost p) \<and> (\<forall>m. c \<noteq> GmailSend m) \<and>
                    (\<forall>i t. c \<noteq> DocsBatchUpdate i t)"
    by (rule completed_run_journal [OF run nodup])
  let ?rest = "GmailSend (client_email cfg s
          (''https://docs.google.com/document/d/'' @ underwrite_doc_id r)
          (''https://docs.google.com/document/d/'' @ kiq_doc_id r)) #
       map GmailSend (take n (map (internal_notification cfg s
          (''https://drive.google.com/drive/folders/'' @ project_folder_id r)
          (''https://docs.google.com/document/d/'' @ underwrite_doc_id r)
          (''https://docs.google.com/document/d/'' @ kiq_doc_id r))
          (internal_notification_emails cfg)))"
  have shape: "journal w' = journal w @ pre @
          [MessagesPost (underwrite_prompt d), DocsCreate ?t1,
           DocsBatchUpdate (underwrite_doc_id r) a,
           FilesUpdate (underwrite_doc_id r) P ''root'',
           MessagesPost (kiq_prompt a), DocsCreate ?t2,
           DocsBatchUpdate (kiq_doc_id r) q,
           FilesUpdate (kiq_doc_id r) K ''root''] @ ?rest"
    unfolding j by simp
  have before: "\<forall>c\<in>set pre. (\<forall>p. c \<noteq> MessagesPost p) \<and> (\<forall>i t. c \<noteq> DocsBatchUpdate i t)"
    using pre by simp
  have after: "\<forall>c\<in>set ?rest. (\<forall>p. c \<noteq> MessagesPost p) \<and> (\<forall>i t. c \<noteq> DocsBatchUpdate i t)"
    by auto
  have first: "raises sv (journal w @ pre) (MessagesPost (underwrite_prompt d)) \<noteq> None \<longrightarrow>
           a = analysis_failed"
  proof
    assume "raises sv (journal w @ pre) (MessagesPost (underwrite_prompt d)) \<noteq> None"
    then show "a = analysis_failed"
      by (subst a) (auto split: option.splits)
  qed
  have second: "raises sv
           (journal w @ pre @
              [MessagesPost (underwrite_prompt d), DocsCreate ?t1,
               DocsBatchUpdate (underwrite_doc_id r) a,
               FilesUpdate (underwrite_doc_id r) P ''root''])
           (MessagesPost (kiq_prompt a)) \<noteq> None \<longrightarrow>
           q = questions_failed"
  proof
    assume "raises sv
           (journal w @ pre @
              [MessagesPost (underwrite_prompt d), DocsCreate ?t1,
               DocsBatchUpdate (underwrite_doc_id r) a,
               FilesUpdate (underwrite_doc_id r) P ''root''])
           (MessagesPost (kiq_prompt a)) \<noteq> None"
    then show "q = questions_failed"
      by (subst q) (auto split: option.splits)
  qed
  have stages: "\<exists>pre d a q P K rest.
        journal w' = journal w @ pre @
          [MessagesPost (underwrite_prompt d), DocsCreate ?t1,
           DocsBatchUpdate (underwrite_doc_id r) a,
           FilesUpdate (underwrite_doc_id r) P ''root'',
           MessagesPost (kiq_prompt a), DocsCreate ?t2,
           DocsBatchUpdate (kiq_doc_id r) q,
           FilesUpdate (kiq_doc_id r) K ''root''] @ rest \<and>
        (\<forall>c\<in>set pre. (\<forall>p. c \<noteq> MessagesPost p) \<and> (\<forall>i t. c \<noteq> DocsBatchUpdate i t)) \<and>
        (\<forall>c\<in>set rest. (\<forall>p. c \<noteq> MessagesPost p) \<and> (\<forall>i t. c \<noteq> DocsBatchUpdate i t)) \<and>
        (raises sv (journal w @ pre) (MessagesPost (underwrite_prompt d)) \<noteq> None \<longrightarrow>
           a = analysis_failed) \<and>
        (raises sv
           (journal w @ pre @
              [MessagesPost (underwrite_prompt d), DocsCreate ?t1,
               DocsBatchUpdate (underwrite_doc_id r) a,
               FilesUpdate (underwrite_doc_id r) P ''root''])
           (MessagesPost (kiq_prompt a)) \<noteq> None \<longrightarrow>
           q = questions_failed)"
    by (rule exI [of _ pre], rule exI [of _ d], rule exI [of _ a], rule exI [of _ q],
        rule exI [of _ P], rule exI [of _ K], rule exI [of _ ?rest])
      (rule conjI [OF shape conjI [OF before conjI [OF after conjI [OF first second]]]])
  note ids = completed_run_ids [OF run nodup]
  have populated: "(\<forall>h c. new_id sv h c \<noteq> []) \<longrightarrow>
        project_folder_id r \<noteq> [] \<and> underwrite_doc_id r \<noteq> [] \<and> kiq_doc_id r \<noteq> []"
    using ids by metis
  have distinct: "analysis_failed \<noteq> questions_failed"
    by (simp add: analysis_failed_def questions_failed_def)
  show ?thesis
    by (rule exI [of _ r], rule exI [of _ w'])
      (intro conjI run nodup conjunct1 [OF ids] conjunct1 [OF conjunct2 [OF ids]]
         conjunct2 [OF conjunct2 [OF ids]] populated stages distinct)
qed


theorem generation_failure_never_aborts_witness:
  "\<exists>r w'.
     process_submission (demo_services generation_down matches_every_word) sample_config
       test_submission ''test_document.pdf'' empty_world = (Inr r, w') \<and>
     \<not> duplicate_detected r \<and>
     project_folder_id r \<noteq> [] \<and> underwrite_doc_id r \<noteq> [] \<and> kiq_doc_id r \<noteq> [] \<and>
     (\<exists>pre d P K rest.
        journal w' = journal empty_world @ pre @
          [MessagesPost (underwrite_prompt d),
           DocsCreate (email test_submission @ '' - '' @ project_name test_submission @ '' - '' @
                       company_name sample_config @ '' Underwrite''),
           DocsBatchUpdate (underwrite_doc_id r) analysis_failed,
           FilesUpdate (underwrite_doc_id r) P ''root'',
           MessagesPost (kiq_prompt analysis_failed),
           DocsCreate (email test_submission @ '' - '' @ project_name test_submission @
                       '' - KIQ_1''),
           DocsBatchUpdate (kiq_doc_id r) questions_failed,
           FilesUpdate (kiq_doc_id r) K ''root''] @ rest)"
proof -
  let ?sv = "demo_services generation_down matches_every_word"
  let ?t1 = "email test_submission @ '' - '' @ project_name test_submission @ '' - '' @
             company_name sample_config @ '' Underwrite''"
  let ?t2 = "email test_submission @ '' - '' @ project_name test_submission @ '' - KIQ_1''"
  have store: "\<forall>h c. aborts c \<longrightarrow> raises ?sv h c = None"
    by (auto simp: demo_services_def generation_down_def split: call.splits)
  have ids: "\<forall>h c. new_id ?sv h c \<noteq> []"
    by (simp add: demo_services_def demo_id_not_empty)
  have down: "\<And>h p. raises ?sv h (MessagesPost p) \<noteq> None"
    by (simp add: demo_services_def generation_down_def)
  let ?stages = "\<lambda>r w'. \<exists>pre d a q P K rest.
        journal w' = journal empty_world @ pre @
          [MessagesPost (underwrite_prompt d), DocsCreate ?t1,
           DocsBatchUpdate (underwrite_doc_id r) a,
           FilesUpdate (underwrite_doc_id r) P ''root'',
           MessagesPost (kiq_prompt a), DocsCreate ?t2,
           DocsBatchUpdate (kiq_doc_id r) q,
           FilesUpdate (kiq_doc_id r) K ''root''] @ rest \<and>
        (\<forall>c\<in>set pre. (\<forall>p. c \<noteq> MessagesPost p) \<and> (\<forall>i t. c \<noteq> DocsBatchUpdate i t)) \<and>
        (\<forall>c\<in>set rest. (\<forall>p. c \<noteq> MessagesPost p) \<and> (\<forall>i t. c \<noteq> DocsBatchUpdate i t)) \<and>
        (raises ?sv (journal empty_world @ pre) (MessagesPost (underwrite_prompt d)) \<noteq> None \<longrightarrow>
           a = analysis_failed) \<and>
        (raises ?sv
           (journal empty_world @ pre @
              [MessagesPost (underwrite_prompt d), DocsCreate ?t1,
               DocsBatchUpdate (underwrite_doc_id r) a,
               FilesUpdate (underwrite_doc_id r) P ''root''])
           (MessagesPost (kiq_prompt a)) \<noteq> None \<longrightarrow>
           q = questions_failed)"
  from generation_failure_never_aborts [OF demo_no_match store, of "''test_document.pdf''"]
  obtain r where "\<exists>w'.
     process_submission ?sv sample_config test_submission ''test_document.pdf'' empty_world
       = (Inr r, w') \<and> \<not> duplicate_detected r \<and>
     (\<exists>h c. project_folder_id r = new_id ?sv h c) \<and>
     (\<exists>h c. underwrite_doc_id r = new_id ?sv h c) \<and>
     (\<exists>h c. kiq_doc_id r = new_id ?sv h c) \<and>
     ((\<forall>h c. new_id ?sv h c \<noteq> []) \<longrightarrow>
        project_folder_id r \<noteq> [] \<and> underwrite_doc_id r \<noteq> [] \<and> kiq_doc_id r \<noteq> []) \<and>
     ?stages r w' \<and> analysis_failed \<noteq> questions_failed" ..
  then obtain w' where all:
    "process_submission ?sv sample_config test_submission ''test_document.pdf'' empty_world
       = (Inr r, w') \<and> \<not> duplicate_detected r \<and>
     (\<exists>h c. project_folder_id r = new_id ?sv h c) \<and>
     (\<exists>h c. underwrite_doc_id r = new_id ?sv h c) \<and>
     (\<exists>h c. kiq_doc_id r = new_id ?sv h c) \<and>
     ((\<forall>h c. new_id ?sv h c \<noteq> []) \<longrightarrow>
        project_folder_id r \<noteq> [] \<and> underwrite_doc_id r \<noteq> [] \<and> kiq_doc_id r \<noteq> []) \<and>
     ?stages r w' \<and> analysis_failed \<noteq> questions_failed" ..
  note run = all [THEN conjunct1]
  note nodup = all [THEN conjunct2, THEN conjunct1]
  note populated = all [THEN conjunct2, THEN conjunct2, THEN conjunct2, THEN conjunct2,
      THEN conjunct2, THEN conjunct1]
  note stages = all [THEN conjunct2, THEN conjunct2, THEN conjunct2, THEN conjunct2,
      THEN conjunct2, THEN conjunct2, THEN conjunct1]
  from stages obtain pre d a q P K rest where parts:
    "journal w' = journal empty_world @ pre @
          [MessagesPost (underwrite_prompt d), DocsCreate ?t1,
           DocsBatchUpdate (underwrite_doc_id r) a,
           FilesUpdate (underwrite_doc_id r) P ''root'',
           MessagesPost (kiq_prompt a), DocsCreate ?t2,
           DocsBatchUpdate (kiq_doc_id r) q,
           FilesUpdate (kiq_doc_id r) K ''root''] @ rest \<and>
        (\<forall>c\<in>set pre. (\<forall>p. c \<noteq> MessagesPost p) \<and> (\<forall>i t. c \<noteq> DocsBatchUpdate i t)) \<and>
        (\<forall>c\<in>set rest. (\<forall>p. c \<noteq> MessagesPost p) \<and> (\<forall>i t. c \<noteq> DocsBatchUpdate i t)) \<and>
        (raises ?sv (journal empty_world @ pre) (MessagesPost (underwrite_prompt d)) \<noteq> None \<longrightarrow>
           a = analysis_failed) \<and>
        (raises ?sv
           (journal empty_world @ pre @
              [MessagesPost (underwrite_prompt d), DocsCreate ?t1,
               DocsBatchUpdate (underwrite_doc_id r) a,
               FilesUpdate (underwrite_doc_id r) P ''root''])
           (MessagesPost (kiq_prompt a)) \<noteq> None \<longrightarrow>
           q = questions_failed)"
    by (elim exE)
  note shape = parts [THEN conjunct1]
  note first = parts [THEN conjunct2, THEN conjunct2, THEN conjunct2, THEN conjunct1]
  note second = parts [THEN conjunct2, THEN conjunct2, THEN conjunct2, THEN conjunct2]
  have a: "a = analysis_failed"
    using first down by (rule mp)
  have q: "q = questions_failed"
    using second down by (rule mp)
  have bodies: "\<exists>pre d P K rest.
        journal w' = journal empty_world @ pre @
          [MessagesPost (underwrite_prompt d), DocsCreate ?t1,
           DocsBatchUpdate (underwrite_doc_id r) analysis_failed,
           FilesUpdate (underwrite_doc_id r) P ''root'',
           MessagesPost (kiq_prompt analysis_failed), DocsCreate ?t2,
           DocsBatchUpdate (kiq_doc_id r) questions_failed,
           FilesUpdate (kiq_doc_id r) K ''root''] @ rest"
    by (rule exI [of _ pre], rule exI [of _ d], rule exI [of _ P], rule exI [of _ K],
        rule exI [of _ rest]) (rule shape [unfolded a q])
  have non_empty: "project_folder_id r \<noteq> [] \<and> underwrite_doc_id r \<noteq> [] \<and> kiq_doc_id r \<noteq> []"
    using populated ids by (rule mp)
  show ?thesis
    by (rule exI [of _ r], rule exI [of _ w'])
      (intro conjI run nodup conjunct1 [OF non_empty] conjunct1 [OF conjunct2 [OF non_empty]]
         conjunct2 [OF conjunct2 [OF non_empty]] bodies)
qed


text \<open>
  C3. Whenever the duplicate check finds a match, \<open>process_submission\<close> returns the outcome
  with the duplicate flag set and the three identifiers empty; the only calls it issues are
  the duplicate query and one message handed to the mail service, the duplicate notification
  addressed to the submitter; no folder, upload, export, generation or document call is
  issued and the files of the store are as before. In every run, an outcome with the
  duplicate flag set has its three identifiers empty.
\<close>

theorem duplicate_run_does_no_work:
  assumes "fst (check_duplicate_project sv cfg (email s) (project_name s) w)"
  shows "fst (process_submission sv cfg s path w) =
           Inr \<lparr>project_folder_id = [], underwrite_doc_id = [], kiq_doc_id = [],
                duplicate_detected = True\<rparr> \<and>
         journal (snd (process_submission sv cfg s path w)) =
           journal w @ [FilesList (duplicate_query cfg (email s) (project_name s)),
                        GmailSend (duplicate_notification cfg s)] \<and>
         mail_to (duplicate_notification cfg s) = email s \<and>
         drive (snd (process_submission sv cfg s path w)) = drive w \<and>
         (\<forall>sv' cfg' s' path' w' r.
            fst (process_submission sv' cfg' s' path' w') = Inr r \<and> duplicate_detected r \<longrightarrow>
            project_folder_id r = [] \<and> underwrite_doc_id r = [] \<and> kiq_doc_id r = [])"
proof -
  let ?w0 = "logger INFO (''Processing submission for '' @ project_name s) w"
  have "fst (check_duplicate_project sv cfg (email s) (project_name s) ?w0)"
    using assms by (simp add: check_duplicate_logger)
  from check_duplicate_found [OF this]
  have "fst (process_submission sv cfg s path w) =
           Inr \<lparr>project_folder_id = [], underwrite_doc_id = [], kiq_doc_id = [],
                duplicate_detected = True\<rparr> \<and>
         journal (snd (process_submission sv cfg s path w)) =
           journal w @ [FilesList (duplicate_query cfg (email s) (project_name s)),
                        GmailSend (duplicate_notification cfg s)] \<and>
         mail_to (duplicate_notification cfg s) = email s \<and>
         drive (snd (process_submission sv cfg s path w)) = drive w"
    by (simp add: process_submission_def process_steps_def send_duplicate_notification_def
        perform_def logger_def duplicate_notification_def create_message_raw_def
        split: option.splits)
  then show ?thesis
    using duplicate_flag_ids by blast
qed

theorem duplicate_run_does_no_work_witness:
  "fst (check_duplicate_project (demo_services no_failures matches_every_word) sample_config
          (email test_submission) (project_name test_submission)
          \<lparr>drive = [\<lparr>file_id = ''F1'', file_name = ''test@example.com - Sample Project'',
                      file_mime = Some folder_mime,
                      file_parents = [''your_drive_folder_id'']\<rparr>],
           journal = [], logged = []\<rparr>) \<and>
   fst (process_submission (demo_services no_failures matches_every_word) sample_config
          test_submission ''test_document.pdf''
          \<lparr>drive = [\<lparr>file_id = ''F1'', file_name = ''test@example.com - Sample Project'',
                      file_mime = Some folder_mime,
                      file_parents = [''your_drive_folder_id'']\<rparr>],
           journal = [], logged = []\<rparr>) =
     Inr \<lparr>project_folder_id = [], underwrite_doc_id = [], kiq_doc_id = [],
          duplicate_detected = True\<rparr>"
proof -
  have found:
    "fst (check_duplicate_project (demo_services no_failures matches_every_word) sample_config
          (email test_submission) (project_name test_submission)
          \<lparr>drive = [\<lparr>file_id = ''F1'', file_name = ''test@example.com - Sample Project'',
                      file_mime = Some folder_mime,
                      file_parents = [''your_drive_folder_id'']\<rparr>],
           journal = [], logged = []\<rparr>)"
    by (simp add: check_duplicate_project_def perform_def matching_files_def search_term_def
        clean_text_for_search_def demo_services_def no_failures_def matches_every_word_def
        is_search_separator_def py_isspace_def sample_config_def test_submission_def)
  from duplicate_run_does_no_work [OF found] found show ?thesis
    by blast
qed


lemma re_split_not_Nil: "re_split t \<noteq> []"
  by (induction t rule: re_split.induct) (auto split: list.splits)

lemma words_dropWhile:
  "filter (\<lambda>word. word \<noteq> []) (re_split (dropWhile is_search_separator t)) =
   filter (\<lambda>word. word \<noteq> []) (re_split t)"
  by (cases t) auto

lemma words_skip_separators:
  assumes "\<forall>c\<in>set s. is_search_separator c"
  shows "filter (\<lambda>word. word \<noteq> []) (re_split (s @ rest)) =
         filter (\<lambda>word. word \<noteq> []) (re_split rest)"
proof -
  have "dropWhile is_search_separator (s @ rest) = dropWhile is_search_separator rest"
    using assms by (simp add: dropWhile_append2)
  then show ?thesis
    using words_dropWhile [of "s @ rest"] words_dropWhile [of rest] by simp
qed

lemma re_split_word:
  assumes "\<forall>c\<in>set w. \<not> is_search_separator c"
  shows "re_split (w @ rest) = (w @ hd (re_split rest)) # tl (re_split rest)"
  using assms
proof (induction w)
  case Nil
  then show ?case using re_split_not_Nil [of rest] by simp
next
  case (Cons c w)
  then show ?case by (simp split: list.splits)
qed

lemma words_word:
  assumes "w \<noteq> []" and "\<forall>c\<in>set w. \<not> is_search_separator c"
    and "rest = [] \<or> is_search_separator (hd rest)"
  shows "filter (\<lambda>word. word \<noteq> []) (re_split (w @ rest)) =
         w # filter (\<lambda>word. word \<noteq> []) (re_split rest)"
proof -
  have "hd (re_split rest) = []"
    using assms(3) by (cases rest) auto
  moreover have "filter (\<lambda>word. word \<noteq> []) (re_split rest) =
                 filter (\<lambda>word. word \<noteq> []) (tl (re_split rest))"
    using assms(3) by (cases rest) auto
  ultimately show ?thesis
    using assms(1) re_split_word [OF assms(2), of rest] by simp
qed

lemma words_last:
  assumes "w \<noteq> []" and "\<forall>c\<in>set w. \<not> is_search_separator c"
    and "\<forall>c\<in>set trail. is_search_separator c"
  shows "filter (\<lambda>word. word \<noteq> []) (re_split (w @ trail)) = [w]"
proof -
  have t: "trail = [] \<or> is_search_separator (hd trail)"
    using assms(3) by (cases trail) auto
  have "filter (\<lambda>word. word \<noteq> []) (re_split trail) = []"
    using words_skip_separators [OF assms(3), of "[]"] by simp
  then show ?thesis
    using words_word [OF assms(1) assms(2) t] by simp
qed

lemma words_interleave:
  assumes "\<forall>w\<in>set ws. w \<noteq> [] \<and> (\<forall>c\<in>set w. \<not> is_search_separator c)"
    and "\<forall>s\<in>set seps. s \<noteq> [] \<and> (\<forall>c\<in>set s. is_search_separator c)"
    and "length ws = Suc (length seps)"
    and "\<forall>c\<in>set trail. is_search_separator c"
  shows "filter (\<lambda>word. word \<noteq> []) (re_split (interleave ws seps @ trail)) = ws"
  using assms
proof (induction ws seps rule: interleave.induct)
  case (1 w v ws s seps)
  have s: "s \<noteq> []" "\<forall>c\<in>set s. is_search_separator c"
    using "1.prems"(2) by auto
  have w: "w \<noteq> []" "\<forall>c\<in>set w. \<not> is_search_separator c"
    using "1.prems"(1) by auto
  have rest: "filter (\<lambda>word. word \<noteq> []) (re_split (interleave (v # ws) seps @ trail)) = v # ws"
    using "1.IH" "1.prems" by simp
  have start: "s @ interleave (v # ws) seps @ trail = [] \<or>
               is_search_separator (hd (s @ interleave (v # ws) seps @ trail))"
    using s by (cases s) auto
  have "filter (\<lambda>word. word \<noteq> []) (re_split (w @ s @ interleave (v # ws) seps @ trail)) =
        w # filter (\<lambda>word. word \<noteq> []) (re_split (s @ interleave (v # ws) seps @ trail))"
    using words_word [OF w start] .
  also have "\<dots> = w # v # ws"
    using words_skip_separators [OF s(2), of "interleave (v # ws) seps @ trail"] rest by simp
  finally show ?case by simp
qed (simp_all add: words_last)

text \<open>
  C4. Normalization does not depend on the separators: a text made of any words (non-empty,
  free of separators) with any non-empty runs of whitespace and of the characters
  \<open>- . , ; : | / _\<close> between them, and any such run before or after, normalizes to the
  words joined by commas. In particular \<open>Alpha Beta\<close>, \<open>Alpha-Beta\<close>, \<open>Alpha.Beta\<close> and
  \<open>Alpha_Beta\<close> all give \<open>Alpha,Beta\<close>.
\<close>

theorem clean_text_separator_invariant:
  "(\<forall>ws seps lead trail.
      (\<forall>w\<in>set ws. w \<noteq> [] \<and> (\<forall>c\<in>set w. \<not> is_search_separator c)) \<and>
      (\<forall>s\<in>set seps. s \<noteq> [] \<and> (\<forall>c\<in>set s. is_search_separator c)) \<and>
      length ws = Suc (length seps) \<and>
      (\<forall>c\<in>set lead. is_search_separator c) \<and>
      (\<forall>c\<in>set trail. is_search_separator c) \<longrightarrow>
      clean_text_for_search (lead @ interleave ws seps @ trail) = join '','' ws) \<and>
   clean_text_for_search ''Alpha Beta'' = ''Alpha,Beta'' \<and>
   clean_text_for_search ''Alpha-Beta'' = ''Alpha,Beta'' \<and>
   clean_text_for_search ''Alpha.Beta'' = ''Alpha,Beta'' \<and>
   clean_text_for_search ''Alpha_Beta'' = ''Alpha,Beta''"
proof -
  have general: "clean_text_for_search (lead @ interleave ws seps @ trail) = join '','' ws"
    if "\<forall>w\<in>set ws. w \<noteq> [] \<and> (\<forall>c\<in>set w. \<not> is_search_separator c)"
      and "\<forall>s\<in>set seps. s \<noteq> [] \<and> (\<forall>c\<in>set s. is_search_separator c)"
      and "length ws = Suc (length seps)"
      and "\<forall>c\<in>set lead. is_search_separator c"
      and "\<forall>c\<in>set trail. is_search_separator c"
    for ws seps lead trail
    using words_skip_separators [OF that(4), of "interleave ws seps @ trail"]
      words_interleave [OF that(1) that(2) that(3) that(5)]
    by (simp add: clean_text_for_search_def)
  have examples:
    "clean_text_for_search ''Alpha Beta'' = ''Alpha,Beta''"
    "clean_text_for_search ''Alpha-Beta'' = ''Alpha,Beta''"
    "clean_text_for_search ''Alpha.Beta'' = ''Alpha,Beta''"
    "clean_text_for_search ''Alpha_Beta'' = ''Alpha,Beta''"
    by (simp_all add: clean_text_for_search_def is_search_separator_def py_isspace_def)
  show ?thesis using general examples by blast
qed

theorem clean_text_separator_invariant_witness:
  "clean_text_for_search ('' '' @ interleave [''Foo'', ''Bar'', ''Baz''] [''_-'', '' / ''] @ ''.'')
     = join '','' [''Foo'', ''Bar'', ''Baz'']"
proof -
  have hyps: "(\<forall>w\<in>set [''Foo'', ''Bar'', ''Baz'']. w \<noteq> [] \<and> (\<forall>c\<in>set w. \<not> is_search_separator c)) \<and>
      (\<forall>s\<in>set [''_-'', '' / '']. s \<noteq> [] \<and> (\<forall>c\<in>set s. is_search_separator c)) \<and>
      length [''Foo'', ''Bar'', ''Baz''] = Suc (length [''_-'', '' / '']) \<and>
      (\<forall>c\<in>set '' ''. is_search_separator c) \<and>
      (\<forall>c\<in>set ''.''. is_search_separator c)"
    by (simp add: is_search_separator_def py_isspace_def)
  from clean_text_separator_invariant
  have "\<forall>ws seps lead trail.
      (\<forall>w\<in>set ws. w \<noteq> [] \<and> (\<forall>c\<in>set w. \<not> is_search_separator c)) \<and>
      (\<forall>s\<in>set seps. s \<noteq> [] \<and> (\<forall>c\<in>set s. is_search_separator c)) \<and>
      length ws = Suc (length seps) \<and>
      (\<forall>c\<in>set lead. is_search_separator c) \<and>
      (\<forall>c\<in>set trail. is_search_separator c) \<longrightarrow>
      clean_text_for_search (lead @ interleave ws seps @ trail) = join '','' ws"
    by (rule conjunct1)
  then show ?thesis using hyps by blast
qed


lemma kiq_prompt_mandatory:
  "\<exists>x y. kiq_prompt u =
     x @ ''1. '' @ mandatory_question_1 @ ''\<newline>A:\<newline>\<newline>'' @
         ''2. '' @ mandatory_question_2 @ ''\<newline>A:\<newline>\<newline>'' @ y"
  by (rule exI [of _ "''Based on the following pre-due diligence analysis findings:\<newline>\<newline>'' @
        u @ ''\<newline>\<newline>'' @ kiq_instructions"], rule exI [of _ kiq_distribution])
    (simp add: kiq_prompt_def)

text \<open>
  C5, as the program has it. In a run that completes without a duplicate, the text inserted
  into the KIQ document is the text the generation service returned for the second-stage
  prompt, as it is, whatever it holds; when that call fails it is the fixed placeholder
  \<open>Question generation failed - please create manually.\<close>. Nothing is inserted after it.
  The fifteen numbered entries and the two mandatory questions are asked for in the prompt,
  which carries both questions verbatim; the answer is not checked against them.
\<close>

theorem kiq_body_is_service_output:
  assumes run: "process_submission sv cfg s path w = (Inr r, w')"
    and nodup: "\<not> duplicate_detected r"
  shows "\<exists>h u K rest.
     journal w' = h @
       [MessagesPost (kiq_prompt u),
        DocsCreate (email s @ '' - '' @ project_name s @ '' - KIQ_1''),
        DocsBatchUpdate (kiq_doc_id r)
          (case raises sv h (MessagesPost (kiq_prompt u)) of
             None \<Rightarrow> generated sv h (kiq_prompt u)
           | Some e \<Rightarrow> questions_failed),
        FilesUpdate (kiq_doc_id r) K ''root''] @ rest \<and>
     (\<forall>c\<in>set rest. \<forall>i t. c \<noteq> DocsBatchUpdate i t) \<and>
     (\<exists>x y. kiq_prompt u =
        x @ ''1. '' @ mandatory_question_1 @ ''\<newline>A:\<newline>\<newline>'' @
            ''2. '' @ mandatory_question_2 @ ''\<newline>A:\<newline>\<newline>'' @ y) \<and>
     questions_failed = ''Question generation failed - please create manually.''"
proof -
  obtain pre d a q P K n where
    j: "journal w' = journal w @ pre @
       [MessagesPost (underwrite_prompt d),
        DocsCreate (email s @ '' - '' @ project_name s @ '' - '' @ company_name cfg @ '' Underwrite''),
        DocsBatchUpdate (underwrite_doc_id r) a,
        FilesUpdate (underwrite_doc_id r) P ''root'',
        MessagesPost (kiq_prompt a),
        DocsCreate (email s @ '' - '' @ project_name s @ '' - KIQ_1''),
        DocsBatchUpdate (kiq_doc_id r) q,
        FilesUpdate (kiq_doc_id r) K ''root'',
        GmailSend (client_email cfg s
          (''https://docs.google.com/document/d/'' @ underwrite_doc_id r)
          (''https://docs.google.com/document/d/'' @ kiq_doc_id r))] @
       map GmailSend (take n (map (internal_notification cfg s
          (''https://drive.google.com/drive/folders/'' @ project_folder_id r)
          (''https://docs.google.com/document/d/'' @ underwrite_doc_id r)
          (''https://docs.google.com/document/d/'' @ kiq_doc_id r))
          (internal_notification_emails cfg)))"
    and q: "q = (case raises sv (journal w @ pre @
                 [MessagesPost (underwrite_prompt d),
                  DocsCreate (email s @ '' - '' @ project_name s @ '' - '' @ company_name cfg @
                              '' Underwrite''),
                  DocsBatchUpdate (underwrite_doc_id r) a,
                  FilesUpdate (underwrite_doc_id r) P ''root''])
               (MessagesPost (kiq_prompt a)) of
            None \<Rightarrow> generated sv (journal w @ pre @
                 [MessagesPost (underwrite_prompt d),
                  DocsCreate (email s @ '' - '' @ project_name s @ '' - '' @ company_name cfg @
                              '' Underwrite''),
                  DocsBatchUpdate (underwrite_doc_id r) a,
                  FilesUpdate (underwrite_doc_id r) P ''root'']) (kiq_prompt a)
          | Some e \<Rightarrow> questions_failed)"
    by (rule completed_run_journal [OF run nodup])
  let ?h = "journal w @ pre @
                 [MessagesPost (underwrite_prompt d),
                  DocsCreate (email s @ '' - '' @ project_name s @ '' - '' @ company_name cfg @
                              '' Underwrite''),
                  DocsBatchUpdate (underwrite_doc_id r) a,
                  FilesUpdate (underwrite_doc_id r) P ''root'']"
  let ?rest = "GmailSend (client_email cfg s
          (''https://docs.google.com/document/d/'' @ underwrite_doc_id r)
          (''https://docs.google.com/document/d/'' @ kiq_doc_id r)) #
       map GmailSend (take n (map (internal_notification cfg s
          (''https://drive.google.com/drive/folders/'' @ project_folder_id r)
          (''https://docs.google.com/document/d/'' @ underwrite_doc_id r)
          (''https://docs.google.com/document/d/'' @ kiq_doc_id r))
          (internal_notification_emails cfg)))"
  have shape: "journal w' = ?h @
       [MessagesPost (kiq_prompt a),
        DocsCreate (email s @ '' - '' @ project_name s @ '' - KIQ_1''),
        DocsBatchUpdate (kiq_doc_id r)
          (case raises sv ?h (MessagesPost (kiq_prompt a)) of
             None \<Rightarrow> generated sv ?h (kiq_prompt a)
           | Some e \<Rightarrow> questions_failed),
        FilesUpdate (kiq_doc_id r) K ''root''] @ ?rest"
    unfolding q [symmetric] j by simp
  have after: "\<forall>c\<in>set ?rest. \<forall>i t. c \<noteq> DocsBatchUpdate i t"
    by auto
  have "\<exists>h u K rest.
     journal w' = h @
       [MessagesPost (kiq_prompt u),
        DocsCreate (email s @ '' - '' @ project_name s @ '' - KIQ_1''),
        DocsBatchUpdate (kiq_doc_id r)
          (case raises sv h (MessagesPost (kiq_prompt u)) of
             None \<Rightarrow> generated sv h (kiq_prompt u)
           | Some e \<Rightarrow> questions_failed),
        FilesUpdate (kiq_doc_id r) K ''root''] @ rest \<and>
     (\<forall>c\<in>set rest. \<forall>i t. c \<noteq> DocsBatchUpdate i t) \<and>
     (\<exists>x y. kiq_prompt u =
        x @ ''1. '' @ mandatory_question_1 @ ''\<newline>A:\<newline>\<newline>'' @
            ''2. '' @ mandatory_question_2 @ ''\<newline>A:\<newline>\<newline>'' @ y)"
    by (rule exI [of _ ?h], rule exI [of _ a], rule exI [of _ K], rule exI [of _ ?rest])
      (rule conjI [OF shape conjI [OF after kiq_prompt_mandatory]])
  then show ?thesis
    by (simp add: questions_failed_def)
qed

theorem kiq_body_is_service_output_witness:
  "\<exists>r w'.
     process_submission (demo_services no_failures matches_every_word) sample_config
       test_submission ''test_document.pdf'' empty_world = (Inr r, w') \<and>
     (\<exists>h u K rest.
       journal w' = h @
         [MessagesPost (kiq_prompt u),
          DocsCreate (email test_submission @ '' - '' @ project_name test_submission @ '' - KIQ_1''),
          DocsBatchUpdate (kiq_doc_id r)
            (case raises (demo_services no_failures matches_every_word) h
                    (MessagesPost (kiq_prompt u)) of
               None \<Rightarrow> generated (demo_services no_failures matches_every_word) h (kiq_prompt u)
             | Some e \<Rightarrow> questions_failed),
          FilesUpdate (kiq_doc_id r) K ''root''] @ rest \<and>
       (\<forall>c\<in>set rest. \<forall>i t. c \<noteq> DocsBatchUpdate i t) \<and>
       (\<exists>x y. kiq_prompt u =
          x @ ''1. '' @ mandatory_question_1 @ ''\<newline>A:\<newline>\<newline>'' @
              ''2. '' @ mandatory_question_2 @ ''\<newline>A:\<newline>\<newline>'' @ y) \<and>
       questions_failed = ''Question generation failed - please create manually.'')"
proof -
  let ?sv = "demo_services no_failures matches_every_word"
  have store: "\<And>h c. aborts c \<Longrightarrow> raises ?sv h c = None"
    by (simp add: demo_services_def no_failures_def)
  obtain r w' where
    run: "process_submission ?sv sample_config test_submission ''test_document.pdf'' empty_world
            = (Inr r, w')"
    and nodup: "\<not> duplicate_detected r"
    by (rule run_completes [OF demo_no_match store])
  show ?thesis
    by (rule exI [of _ r], rule exI [of _ w'])
      (rule conjI [OF run kiq_body_is_service_output [OF run nodup]])
qed

text \<open>
  C5 as stated fails: the test double of the generation service answers the second-stage
  prompt with \<open>Happy to help!\<close>, a well-formed response; that text becomes the body of the
  KIQ document, and it holds no numbered entry at all.
\<close>

theorem kiq_fifteen_entries_counterexample:
  "\<exists>r w' h rest.
     process_submission (demo_services no_failures matches_every_word) sample_config
       test_submission ''test_document.pdf'' empty_world = (Inr r, w') \<and>
     journal w' = h @ DocsBatchUpdate (kiq_doc_id r) ''Happy to help!'' # rest \<and>
     \<not> fifteen_numbered_entries ''Happy to help!'' \<and>
     numbered_entries ''Happy to help!'' = []"
proof -
  let ?sv = "demo_services no_failures matches_every_word"
  have store: "\<And>h c. aborts c \<Longrightarrow> raises ?sv h c = None"
    by (simp add: demo_services_def no_failures_def)
  obtain r w' where
    run: "process_submission ?sv sample_config test_submission ''test_document.pdf'' empty_world
            = (Inr r, w')"
    and nodup: "\<not> duplicate_detected r"
    by (rule run_completes [OF demo_no_match store])
  obtain pre d a q P K n where
    j: "journal w' = journal empty_world @ pre @
       [MessagesPost (underwrite_prompt d),
        DocsCreate (email test_submission @ '' - '' @ project_name test_submission @ '' - '' @
                    company_name sample_config @ '' Underwrite''),
        DocsBatchUpdate (underwrite_doc_id r) a,
        FilesUpdate (underwrite_doc_id r) P ''root'',
        MessagesPost (kiq_prompt a),
        DocsCreate (email test_submission @ '' - '' @ project_name test_submission @ '' - KIQ_1''),
        DocsBatchUpdate (kiq_doc_id r) q,
        FilesUpdate (kiq_doc_id r) K ''root'',
        GmailSend (client_email sample_config test_submission
          (''https://docs.google.com/document/d/'' @ underwrite_doc_id r)
          (''https://docs.google.com/document/d/'' @ kiq_doc_id r))] @
       map GmailSend (take n (map (internal_notification sample_config test_submission
          (''https://drive.google.com/drive/folders/'' @ project_folder_id r)
          (''https://docs.google.com/document/d/'' @ underwrite_doc_id r)
          (''https://docs.google.com/document/d/'' @ kiq_doc_id r))
          (internal_notification_emails sample_config)))"
    and q: "q = (case raises ?sv (journal empty_world @ pre @
                 [MessagesPost (underwrite_prompt d),
                  DocsCreate (email test_submission @ '' - '' @ project_name test_submission @
                              '' - '' @ company_name sample_config @ '' Underwrite''),
                  DocsBatchUpdate (underwrite_doc_id r) a,
                  FilesUpdate (underwrite_doc_id r) P ''root''])
               (MessagesPost (kiq_prompt a)) of
            None \<Rightarrow> generated ?sv (journal empty_world @ pre @
                 [MessagesPost (underwrite_prompt d),
                  DocsCreate (email test_submission @ '' - '' @ project_name test_submission @
                              '' - '' @ company_name sample_config @ '' Underwrite''),
                  DocsBatchUpdate (underwrite_doc_id r) a,
                  FilesUpdate (underwrite_doc_id r) P ''root'']) (kiq_prompt a)
          | Some e \<Rightarrow> questions_failed)"
    by (rule completed_run_journal [OF run nodup])
  have body: "q = ''Happy to help!''"
    unfolding q by (simp add: demo_services_def no_failures_def)
  let ?h = "journal empty_world @ pre @
       [MessagesPost (underwrite_prompt d),
        DocsCreate (email test_submission @ '' - '' @ project_name test_submission @ '' - '' @
                    company_name sample_config @ '' Underwrite''),
        DocsBatchUpdate (underwrite_doc_id r) a,
        FilesUpdate (underwrite_doc_id r) P ''root'',
        MessagesPost (kiq_prompt a),
        DocsCreate (email test_submission @ '' - '' @ project_name test_submission @ '' - KIQ_1'')]"
  let ?rest = "FilesUpdate (kiq_doc_id r) K ''root'' #
        GmailSend (client_email sample_config test_submission
          (''https://docs.google.com/document/d/'' @ underwrite_doc_id r)
          (''https://docs.google.com/document/d/'' @ kiq_doc_id r)) #
       map GmailSend (take n (map (internal_notification sample_config test_submission
          (''https://drive.google.com/drive/folders/'' @ project_folder_id r)
          (''https://docs.google.com/document/d/'' @ underwrite_doc_id r)
          (''https://docs.google.com/document/d/'' @ kiq_doc_id r))
          (internal_notification_emails sample_config)))"
  have shape: "journal w' = ?h @ DocsBatchUpdate (kiq_doc_id r) ''Happy to help!'' # ?rest"
    unfolding j body by simp
  have none: "numbered_entries ''Happy to help!'' = []"
    by (simp add: numbered_entries_def is_numbered_entry_def is_digit_def)
  then have bad: "\<not> fifteen_numbered_entries ''Happy to help!''"
    by (simp add: fifteen_numbered_entries_def)
  show ?thesis
    by (rule exI [of _ r], rule exI [of _ w'], rule exI [of _ ?h], rule exI [of _ ?rest])
      (rule conjI [OF run conjI [OF shape conjI [OF bad none]]])
qed


subsection \<open>Runs that fail\<close>







subsection \<open>The mail service does not decide the outcome\<close>

lemma with_mail_failures_fields [simp]:
  "new_id (with_mail_failures f sv) = new_id sv"
  "export_link (with_mail_failures f sv) = export_link sv"
  "downloaded (with_mail_failures f sv) = downloaded sv"
  "generated (with_mail_failures f sv) = generated sv"
  "name_contains (with_mail_failures f sv) = name_contains sv"
  by (simp_all add: with_mail_failures_def)

lemma perform_with_mail_failures:
  "perform (with_mail_failures f sv) c w =
     (case c of
        GmailSend m \<Rightarrow> (f (journal w) m, snd (perform sv c w))
      | _ \<Rightarrow> perform sv c w)"
  by (cases c) (simp_all add: perform_def with_mail_failures_def)

lemma check_duplicate_with_mail_failures:
  "check_duplicate_project (with_mail_failures f sv) cfg a n w = check_duplicate_project sv cfg a n w"
  by (simp add: check_duplicate_project_def perform_with_mail_failures matching_files_def
      cong: prod.case_cong option.case_cong)

lemma create_folder_with_mail_failures:
  "create_folder (with_mail_failures f sv) name parent w = create_folder sv name parent w"
  by (simp add: create_folder_def perform_with_mail_failures Let_def
      cong: prod.case_cong option.case_cong)

lemma create_project_structure_with_mail_failures:
  "create_project_structure (with_mail_failures f sv) cfg s w = create_project_structure sv cfg s w"
  by (simp add: create_project_structure_def create_folder_with_mail_failures
      cong: prod.case_cong sum.case_cong)

lemma upload_document_with_mail_failures:
  "upload_document (with_mail_failures f sv) file_path folder filename w =
   upload_document sv file_path folder filename w"
  by (simp add: upload_document_def perform_with_mail_failures Let_def
      cong: prod.case_cong option.case_cong sum.case_cong)

lemma extract_document_text_with_mail_failures:
  "extract_document_text (with_mail_failures f sv) i w = extract_document_text sv i w"
  by (simp add: extract_document_text_def perform_with_mail_failures
      cong: prod.case_cong option.case_cong if_cong)

lemma generate_underwrite_analysis_with_mail_failures:
  "generate_underwrite_analysis (with_mail_failures f sv) d w = generate_underwrite_analysis sv d w"
  by (simp add: generate_underwrite_analysis_def perform_with_mail_failures Let_def
      cong: prod.case_cong option.case_cong)

lemma generate_kiq_questions_with_mail_failures:
  "generate_kiq_questions (with_mail_failures f sv) u w = generate_kiq_questions sv u w"
  by (simp add: generate_kiq_questions_def perform_with_mail_failures Let_def
      cong: prod.case_cong option.case_cong)

lemma create_document_with_mail_failures:
  "create_document (with_mail_failures f sv) title content folder w =
   create_document sv title content folder w"
  by (simp add: create_document_def perform_with_mail_failures Let_def
      cong: prod.case_cong option.case_cong sum.case_cong)

lemma send_duplicate_notification_drive:
  "drive (send_duplicate_notification sv cfg s w) = drive w"
  by (simp add: send_duplicate_notification_def perform_def logger_def split: option.splits)

lemma send_internal_notification_drive:
  "drive (send_internal_notification sv cfg s pl ul kl w) = drive w"
  using send_internal_notification_fields [of sv cfg s pl ul kl w] by simp

lemma process_steps_with_mail_failures:
  "fst (process_steps (with_mail_failures f sv) cfg s path w) = fst (process_steps sv cfg s path w) \<and>
   drive (snd (process_steps (with_mail_failures f sv) cfg s path w)) =
     drive (snd (process_steps sv cfg s path w))"
  by (simp add: process_steps_def check_duplicate_with_mail_failures
      create_project_structure_with_mail_failures upload_document_with_mail_failures
      extract_document_text_with_mail_failures generate_underwrite_analysis_with_mail_failures
      generate_kiq_questions_with_mail_failures create_document_with_mail_failures
      send_duplicate_notification_drive send_internal_notification_drive
      send_client_email_fields Let_def
      split: prod.splits sum.splits bool.splits)

lemma process_submission_fst:
  "fst (process_submission sv cfg s path w) = fst (process_steps sv cfg s path w)"
  by (simp add: process_submission_def split: prod.splits sum.splits)

lemma process_submission_drive:
  "drive (snd (process_submission sv cfg s path w)) = drive (snd (process_steps sv cfg s path w))"
  by (simp add: process_submission_def split: prod.splits sum.splits)

text \<open>
  C7. Whatever the mail service does with the client email, the internal notifications or
  the duplicate notice, \<open>process_submission\<close> returns the same value, an outcome or an
  error, as with any other behaviour of the mail service (so the same as when every send
  succeeds), and leaves the same files in the store. A send that raises is caught where it
  is made: the function that sends returns a world, never an error, and its log gains the
  line \<open>Failed to send ...\<close> with the text of the exception.
\<close>

theorem notification_failure_is_swallowed:
  "fst (process_submission (with_mail_failures f sv) cfg s path w) =
     fst (process_submission sv cfg s path w) \<and>
   drive (snd (process_submission (with_mail_failures f sv) cfg s path w)) =
     drive (snd (process_submission sv cfg s path w)) \<and>
   (raises sv (journal w) (GmailSend (client_email cfg s ul kl)) = Some e \<longrightarrow>
      logged (send_client_email sv cfg s ul kl w) =
        logged w @ [(ERROR, ''Failed to send client email: '' @ exn_text e)]) \<and>
   (raises sv (journal w) (GmailSend (duplicate_notification cfg s)) = Some e \<longrightarrow>
      logged (send_duplicate_notification sv cfg s w) =
        logged w @ [(ERROR, ''Failed to send duplicate notification: '' @ exn_text e)]) \<and>
   (fst (send_each sv (map (internal_notification cfg s pl ul kl)
                         (internal_notification_emails cfg)) w) = Some e \<longrightarrow>
      logged (send_internal_notification sv cfg s pl ul kl w) =
        logged w @ [(ERROR, ''Failed to send internal notification: '' @ exn_text e)])"
proof -
  have result: "fst (process_submission (with_mail_failures f sv) cfg s path w) =
     fst (process_submission sv cfg s path w)"
    using process_steps_with_mail_failures [of f sv cfg s path w]
    by (simp only: process_submission_fst)
  have files: "drive (snd (process_submission (with_mail_failures f sv) cfg s path w)) =
     drive (snd (process_submission sv cfg s path w))"
    using process_steps_with_mail_failures [of f sv cfg s path w]
    by (simp only: process_submission_drive)
  have client: "logged (send_client_email sv cfg s ul kl w) =
        logged w @ [(ERROR, ''Failed to send client email: '' @ exn_text e)]"
    if "raises sv (journal w) (GmailSend (client_email cfg s ul kl)) = Some e"
    using that by (simp add: send_client_email_def perform_def)
  have duplicate: "logged (send_duplicate_notification sv cfg s w) =
        logged w @ [(ERROR, ''Failed to send duplicate notification: '' @ exn_text e)]"
    if "raises sv (journal w) (GmailSend (duplicate_notification cfg s)) = Some e"
    using that by (simp add: send_duplicate_notification_def perform_def)
  have internal: "logged (send_internal_notification sv cfg s pl ul kl w) =
        logged w @ [(ERROR, ''Failed to send internal notification: '' @ exn_text e)]"
    if failed: "fst (send_each sv (map (internal_notification cfg s pl ul kl)
                         (internal_notification_emails cfg)) w) = Some e"
  proof -
    obtain w1 where run: "send_each sv (map (internal_notification cfg s pl ul kl)
                         (internal_notification_emails cfg)) w = (Some e, w1)"
      using failed
      by (cases "send_each sv (map (internal_notification cfg s pl ul kl)
                         (internal_notification_emails cfg)) w") simp
    from send_each_world [OF run] have "logged w1 = logged w"
      by simp
    then show ?thesis
      by (simp add: send_internal_notification_def run)
  qed
  from result files client duplicate internal show ?thesis
    by blast
qed

theorem notification_failure_is_swallowed_witness:
  "fst (process_submission
          (with_mail_failures (\<lambda>h m. None) (demo_services mail_down matches_every_word))
          sample_config test_submission ''test_document.pdf'' empty_world) =
     fst (process_submission (demo_services mail_down matches_every_word) sample_config
            test_submission ''test_document.pdf'' empty_world) \<and>
   logged (send_client_email (demo_services mail_down matches_every_word) sample_config
             test_submission ''link to U'' ''link to K'' empty_world) =
     [(ERROR, ''Failed to send client email: mail rejected'')] \<and>
   logged (send_duplicate_notification (demo_services mail_down matches_every_word)
             sample_config test_submission empty_world) =
     [(ERROR, ''Failed to send duplicate notification: mail rejected'')] \<and>
   logged (send_internal_notification (demo_services mail_down matches_every_word)
             sample_config test_submission ''link to F'' ''link to U'' ''link to K'' empty_world) =
     [(ERROR, ''Failed to send internal notification: mail rejected'')]"
proof -
  let ?sv = "demo_services mail_down matches_every_word"
  let ?e = "Exn ''HttpError'' ''mail rejected''"
  have down: "\<And>h m. raises ?sv h (GmailSend m) = Some ?e"
    by (simp add: demo_services_def mail_down_def)
  have each: "fst (send_each ?sv (map (internal_notification sample_config test_submission
                ''link to F'' ''link to U'' ''link to K'')
                (internal_notification_emails sample_config)) empty_world) = Some ?e"
    by (simp add: sample_config_def perform_def down)
  from notification_failure_is_swallowed
    [of "\<lambda>h m. None" ?sv sample_config test_submission "''test_document.pdf''" empty_world
        "''link to U''" "''link to K''" ?e "''link to F''"]
    down each
  show ?thesis
    by (simp add: empty_world_def)
qed


subsection \<open>Start-up\<close>

text \<open>
  C8. Let \<open>key\<close>, \<open>base\<close> and \<open>sender\<close> be the generation-service credential, the storage
  root identifier and the sender address after the environment variables have overridden
  the configuration file. If one of them is missing or empty, loading fails with a
  \<open>ValueError\<close> whose text lists exactly the missing keys, in the order written, the
  processor is not constructed, and \<open>main\<close> only logs the error: it issues no call and
  leaves the store as it is. If all three are present, loading succeeds with these three
  values; each optional field is the file's entry, or its default when the file has none
  (\<open>Your Company\<close>, \<open>Your Name\<close>, \<open>Your Title\<close>, \<open>Your Phone Number\<close>,
  \<open>https://your-website.com/contact\<close>, no internal addressee).
\<close>

theorem missing_configuration_is_fatal:
  "(let config = (case read_config sv path of None \<Rightarrow> empty_config_file | Some c \<Rightarrow> c);
        key = os_getenv sv ''ANTHROPIC_API_KEY'' (cf_anthropic_api_key config);
        base = os_getenv sv ''BASE_FOLDER_ID'' (cf_base_folder_id config);
        sender = os_getenv sv ''FROM_EMAIL'' (cf_from_email config);
        missing = (if truthy key then [] else [''anthropic_api_key'']) @
                  (if truthy base then [] else [''base_folder_id'']) @
                  (if truthy sender then [] else [''from_email'']);
        error = Exn ''ValueError'' (''Missing required configuration: '' @ py_repr_list missing)
    in (missing \<noteq> [] \<longrightarrow>
          load_config sv path = Inl error \<and>
          DealProcessor_init sv path w = (Inl error, w) \<and>
          (\<forall>a. \<not> arg_setup a \<and> arg_config a = path \<longrightarrow>
             journal (main sv a w) = journal w \<and> drive (main sv a w) = drive w \<and>
             logged (main sv a w) =
               logged w @ [(ERROR, ''Application error: Missing required configuration: '' @
                                   py_repr_list missing)])) \<and>
       (missing = [] \<longrightarrow>
          (\<exists>cfg. load_config sv path = Inr cfg \<and>
             Some (anthropic_api_key cfg) = key \<and> anthropic_api_key cfg \<noteq> [] \<and>
             Some (base_folder_id cfg) = base \<and> base_folder_id cfg \<noteq> [] \<and>
             Some (from_email cfg) = sender \<and> from_email cfg \<noteq> [] \<and>
             company_name cfg =
               (case cf_company_name config of None \<Rightarrow> ''Your Company'' | Some v \<Rightarrow> v) \<and>
             signature_name cfg =
               (case cf_signature_name config of None \<Rightarrow> ''Your Name'' | Some v \<Rightarrow> v) \<and>
             signature_title cfg =
               (case cf_signature_title config of None \<Rightarrow> ''Your Title'' | Some v \<Rightarrow> v) \<and>
             phone_number cfg =
               (case cf_phone_number config of None \<Rightarrow> ''Your Phone Number'' | Some v \<Rightarrow> v) \<and>
             support_url cfg =
               (case cf_support_url config of
                  None \<Rightarrow> ''https://your-website.com/contact'' | Some v \<Rightarrow> v) \<and>
             internal_notification_emails cfg =
               (case cf_internal_notification_emails config of None \<Rightarrow> [] | Some v \<Rightarrow> v))))"
  by (auto simp: Let_def load_config_def missing_fields_def required_fields_def
      DealProcessor_init_def main_def logger_def truthy_def dict_get_def
      split: option.splits)


theorem missing_configuration_is_fatal_witness:
  "load_config (demo_services no_failures matches_every_word) ''config.json'' =
     Inl (Exn ''ValueError''
            (''Missing required configuration: ['' @ [CHR 0x27] @ ''anthropic_api_key'' @
             [CHR 0x27] @ '', '' @ [CHR 0x27] @ ''base_folder_id'' @ [CHR 0x27] @ '', '' @
             [CHR 0x27] @ ''from_email'' @ [CHR 0x27] @ '']'')) \<and>
   journal (main (demo_services no_failures matches_every_word)
              \<lparr>arg_setup = False, arg_test = True, arg_config = ''config.json''\<rparr> empty_world) = [] \<and>
   (\<exists>cfg. load_config
            ((demo_services no_failures matches_every_word)
               \<lparr>getenv := (\<lambda>name. if name = ''FROM_EMAIL'' then Some ''deals@example.com'' else None),
                read_config := (\<lambda>path. Some (sample_config_file\<lparr>cf_company_name := None\<rparr>))\<rparr>)
            ''config.json'' = Inr cfg \<and>
          from_email cfg = ''deals@example.com'' \<and>
          anthropic_api_key cfg = ''your_anthropic_key'' \<and>
          base_folder_id cfg = ''your_drive_folder_id'' \<and>
          company_name cfg = ''Your Company'' \<and>
          signature_name cfg = ''Your Name'')"
proof -
  let ?sv = "demo_services no_failures matches_every_word"
  let ?sv' = "?sv\<lparr>getenv := (\<lambda>name. if name = ''FROM_EMAIL'' then Some ''deals@example.com'' else None),
                   read_config := (\<lambda>path. Some (sample_config_file\<lparr>cf_company_name := None\<rparr>))\<rparr>"
  have absent: "load_config ?sv ''config.json'' =
     Inl (Exn ''ValueError''
            (''Missing required configuration: ['' @ [CHR 0x27] @ ''anthropic_api_key'' @
             [CHR 0x27] @ '', '' @ [CHR 0x27] @ ''base_folder_id'' @ [CHR 0x27] @ '', '' @
             [CHR 0x27] @ ''from_email'' @ [CHR 0x27] @ '']'')) \<and>
   journal (main ?sv \<lparr>arg_setup = False, arg_test = True, arg_config = ''config.json''\<rparr>
              empty_world) = []"
    using missing_configuration_is_fatal [of ?sv "''config.json''" empty_world]
    by (simp add: Let_def demo_services_def os_getenv_def empty_config_file_def truthy_def
        py_repr_list_def empty_world_def)
  have present: "\<exists>cfg. load_config ?sv' ''config.json'' = Inr cfg \<and>
          from_email cfg = ''deals@example.com'' \<and>
          anthropic_api_key cfg = ''your_anthropic_key'' \<and>
          base_folder_id cfg = ''your_drive_folder_id'' \<and>
          company_name cfg = ''Your Company'' \<and>
          signature_name cfg = ''Your Name''"
    using missing_configuration_is_fatal [of ?sv' "''config.json''" empty_world]
    by (auto simp: Let_def demo_services_def os_getenv_def sample_config_file_def truthy_def)
  from absent present show ?thesis
    by simp
qed


text \<open>
  C9. In every run that completes without a duplicate, the messages handed to the mail
  service are the client email built with the links
  \<open>https://docs.google.com/document/d/<underwrite_doc_id>\<close> and
  \<open>https://docs.google.com/document/d/<kiq_doc_id>\<close>, followed by internal notifications
  built with \<open>https://drive.google.com/drive/folders/<project_folder_id>\<close> and the same
  two document links; no other message is sent, and the link texts stand in the bodies.
\<close>

theorem notification_links:
  assumes "process_submission sv cfg s path w = (Inr r, w')" and "\<not> duplicate_detected r"
  shows "\<exists>pre n.
     journal w' = journal w @ pre @
       map GmailSend
         (client_email cfg s
            (''https://docs.google.com/document/d/'' @ underwrite_doc_id r)
            (''https://docs.google.com/document/d/'' @ kiq_doc_id r) #
          take n (map (internal_notification cfg s
            (''https://drive.google.com/drive/folders/'' @ project_folder_id r)
            (''https://docs.google.com/document/d/'' @ underwrite_doc_id r)
            (''https://docs.google.com/document/d/'' @ kiq_doc_id r))
            (internal_notification_emails cfg))) \<and>
     (\<forall>c\<in>set pre. \<forall>m. c \<noteq> GmailSend m)"
proof -
  obtain pre d a q P K n where
    j: "journal w' = journal w @ pre @
       [MessagesPost (underwrite_prompt d),
        DocsCreate (email s @ '' - '' @ project_name s @ '' - '' @ company_name cfg @ '' Underwrite''),
        DocsBatchUpdate (underwrite_doc_id r) a,
        FilesUpdate (underwrite_doc_id r) P ''root'',
        MessagesPost (kiq_prompt a),
        DocsCreate (email s @ '' - '' @ project_name s @ '' - KIQ_1''),
        DocsBatchUpdate (kiq_doc_id r) q,
        FilesUpdate (kiq_doc_id r) K ''root'',
        GmailSend (client_email cfg s
          (''https://docs.google.com/document/d/'' @ underwrite_doc_id r)
          (''https://docs.google.com/document/d/'' @ kiq_doc_id r))] @
       map GmailSend (take n (map (internal_notification cfg s
          (''https://drive.google.com/drive/folders/'' @ project_folder_id r)
          (''https://docs.google.com/document/d/'' @ underwrite_doc_id r)
          (''https://docs.google.com/document/d/'' @ kiq_doc_id r))
          (internal_notification_emails cfg)))"
    and pre: "\<forall>c\<in>set pre. (\<forall>p. c \<noteq> MessagesPost p) \<and> (\<forall>m. c \<noteq> GmailSend m) \<and>
                    (\<forall>i t. c \<noteq> DocsBatchUpdate i t)"
    by (rule completed_run_journal [OF assms])
  let ?pre = "pre @
       [MessagesPost (underwrite_prompt d),
        DocsCreate (email s @ '' - '' @ project_name s @ '' - '' @ company_name cfg @ '' Underwrite''),
        DocsBatchUpdate (underwrite_doc_id r) a,
        FilesUpdate (underwrite_doc_id r) P ''root'',
        MessagesPost (kiq_prompt a),
        DocsCreate (email s @ '' - '' @ project_name s @ '' - KIQ_1''),
        DocsBatchUpdate (kiq_doc_id r) q,
        FilesUpdate (kiq_doc_id r) K ''root'']"
  have sends: "journal w' = journal w @ ?pre @
       map GmailSend
         (client_email cfg s
            (''https://docs.google.com/document/d/'' @ underwrite_doc_id r)
            (''https://docs.google.com/document/d/'' @ kiq_doc_id r) #
          take n (map (internal_notification cfg s
            (''https://drive.google.com/drive/folders/'' @ project_folder_id r)
            (''https://docs.google.com/document/d/'' @ underwrite_doc_id r)
            (''https://docs.google.com/document/d/'' @ kiq_doc_id r))
            (internal_notification_emails cfg)))"
    unfolding j by simp
  have quiet: "\<forall>c\<in>set ?pre. \<forall>m. c \<noteq> GmailSend m"
    using pre by simp
  show ?thesis
    by (rule exI [of _ ?pre], rule exI [of _ n]) (rule conjI [OF sends quiet])
qed

theorem notification_links_witness:
  "\<exists>r w'.
     process_submission (demo_services no_failures matches_every_word) sample_config
       test_submission ''test_document.pdf'' empty_world = (Inr r, w') \<and>
     (\<exists>pre n.
        journal w' = journal empty_world @ pre @
          map GmailSend
            (client_email sample_config test_submission
               (''https://docs.google.com/document/d/'' @ underwrite_doc_id r)
               (''https://docs.google.com/document/d/'' @ kiq_doc_id r) #
             take n (map (internal_notification sample_config test_submission
               (''https://drive.google.com/drive/folders/'' @ project_folder_id r)
               (''https://docs.google.com/document/d/'' @ underwrite_doc_id r)
               (''https://docs.google.com/document/d/'' @ kiq_doc_id r))
               (internal_notification_emails sample_config))) \<and>
        (\<forall>c\<in>set pre. \<forall>m. c \<noteq> GmailSend m))"
proof -
  let ?sv = "demo_services no_failures matches_every_word"
  have store: "\<And>h c. aborts c \<Longrightarrow> raises ?sv h c = None"
    by (simp add: demo_services_def no_failures_def)
  obtain r w' where
    run: "process_submission ?sv sample_config test_submission ''test_document.pdf'' empty_world
            = (Inr r, w')"
    and nodup: "\<not> duplicate_detected r"
    by (rule run_completes [OF demo_no_match store])
  show ?thesis
    by (rule exI [of _ r], rule exI [of _ w'])
      (rule conjI [OF run notification_links [OF run nodup]])
qed


text \<open>
  C10. In a run that completes without a duplicate, the text inserted into the underwrite
  document is also the text from which the next generation call, the KIQ prompt, is built;
  these are the only two generation calls of the run, so the second stage is never skipped.
  If the first-stage call raised, that text is the placeholder
  \<open>Analysis generation failed - please review manually.\<close>: the second stage is then
  invoked on the placeholder and not on the document text.
\<close>

theorem failed_analysis_feeds_second_stage:
  assumes run: "process_submission sv cfg s path w = (Inr r, w')"
    and nodup: "\<not> duplicate_detected r"
  shows "analysis_failed = ''Analysis generation failed - please review manually.'' \<and>
    (\<exists>pre d a P rest.
       journal w' = journal w @ pre @
         [MessagesPost (underwrite_prompt d),
          DocsCreate (email s @ '' - '' @ project_name s @ '' - '' @ company_name cfg @
                      '' Underwrite''),
          DocsBatchUpdate (underwrite_doc_id r) a,
          FilesUpdate (underwrite_doc_id r) P ''root'',
          MessagesPost (kiq_prompt a)] @ rest \<and>
       (\<forall>c\<in>set pre. \<forall>p. c \<noteq> MessagesPost p) \<and>
       (\<forall>c\<in>set rest. \<forall>p. c \<noteq> MessagesPost p) \<and>
       (raises sv (journal w @ pre) (MessagesPost (underwrite_prompt d)) \<noteq> None \<longrightarrow>
          a = analysis_failed))"
proof -
  let ?t1 = "email s @ '' - '' @ project_name s @ '' - '' @ company_name cfg @ '' Underwrite''"
  obtain pre d a q P K n where
    j: "journal w' = journal w @ pre @
       [MessagesPost (underwrite_prompt d), DocsCreate ?t1,
        DocsBatchUpdate (underwrite_doc_id r) a,
        FilesUpdate (underwrite_doc_id r) P ''root'',
        MessagesPost (kiq_prompt a),
        DocsCreate (email s @ '' - '' @ project_name s @ '' - KIQ_1''),
        DocsBatchUpdate (kiq_doc_id r) q,
        FilesUpdate (kiq_doc_id r) K ''root'',
        GmailSend (client_email cfg s
          (''https://docs.google.com/document/d/'' @ underwrite_doc_id r)
          (''https://docs.google.com/document/d/'' @ kiq_doc_id r))] @
       map GmailSend (take n (map (internal_notification cfg s
          (''https://drive.google.com/drive/folders/'' @ project_folder_id r)
          (''https://docs.google.com/document/d/'' @ underwrite_doc_id r)
          (''https://docs.google.com/document/d/'' @ kiq_doc_id r))
          (internal_notification_emails cfg)))"
    and a: "a = (case raises sv (journal w @ pre) (MessagesPost (underwrite_prompt d)) of
            None \<Rightarrow> generated sv (journal w @ pre) (underwrite_prompt d)
          | Some e \<Rightarrow> analysis_failed)"
    and pre: "\<forall>c\<in>set pre. (\<forall>p. c \<noteq> MessagesPost p) \<and> (\<forall>m. c \<noteq> GmailSend m) \<and>
                    (\<forall>i t. c \<noteq> DocsBatchUpdate i t)"
    by (rule completed_run_journal [OF run nodup])
  let ?rest = "[DocsCreate (email s @ '' - '' @ project_name s @ '' - KIQ_1''),
        DocsBatchUpdate (kiq_doc_id r) q,
        FilesUpdate (kiq_doc_id r) K ''root'',
        GmailSend (client_email cfg s
          (''https://docs.google.com/document/d/'' @ underwrite_doc_id r)
          (''https://docs.google.com/document/d/'' @ kiq_doc_id r))] @
       map GmailSend (take n (map (internal_notification cfg s
          (''https://drive.google.com/drive/folders/'' @ project_folder_id r)
          (''https://docs.google.com/document/d/'' @ underwrite_doc_id r)
          (''https://docs.google.com/document/d/'' @ kiq_doc_id r))
          (internal_notification_emails cfg)))"
  have shape: "journal w' = journal w @ pre @
         [MessagesPost (underwrite_prompt d), DocsCreate ?t1,
          DocsBatchUpdate (underwrite_doc_id r) a,
          FilesUpdate (underwrite_doc_id r) P ''root'',
          MessagesPost (kiq_prompt a)] @ ?rest"
    unfolding j by simp
  have before: "\<forall>c\<in>set pre. \<forall>p. c \<noteq> MessagesPost p"
    using pre by simp
  have after: "\<forall>c\<in>set ?rest. \<forall>p. c \<noteq> MessagesPost p"
    by auto
  have placeholder: "raises sv (journal w @ pre) (MessagesPost (underwrite_prompt d)) \<noteq> None \<longrightarrow>
          a = analysis_failed"
  proof
    assume "raises sv (journal w @ pre) (MessagesPost (underwrite_prompt d)) \<noteq> None"
    then show "a = analysis_failed"
      by (subst a) (auto split: option.splits)
  qed
  have "\<exists>pre d a P rest.
       journal w' = journal w @ pre @
         [MessagesPost (underwrite_prompt d), DocsCreate ?t1,
          DocsBatchUpdate (underwrite_doc_id r) a,
          FilesUpdate (underwrite_doc_id r) P ''root'',
          MessagesPost (kiq_prompt a)] @ rest \<and>
       (\<forall>c\<in>set pre. \<forall>p. c \<noteq> MessagesPost p) \<and>
       (\<forall>c\<in>set rest. \<forall>p. c \<noteq> MessagesPost p) \<and>
       (raises sv (journal w @ pre) (MessagesPost (underwrite_prompt d)) \<noteq> None \<longrightarrow>
          a = analysis_failed)"
    by (rule exI [of _ pre], rule exI [of _ d], rule exI [of _ a], rule exI [of _ P],
        rule exI [of _ ?rest])
      (rule conjI [OF shape conjI [OF before conjI [OF after placeholder]]])
  then show ?thesis
    by (simp add: analysis_failed_def)
qed

theorem failed_analysis_feeds_second_stage_witness:
  "\<exists>r w'.
     process_submission (demo_services analysis_down matches_every_word) sample_config
       test_submission ''test_document.pdf'' empty_world = (Inr r, w') \<and>
     analysis_failed = ''Analysis generation failed - please review manually.'' \<and>
     (\<exists>pre d P rest.
       journal w' = journal empty_world @ pre @
         [MessagesPost (underwrite_prompt d),
          DocsCreate (email test_submission @ '' - '' @ project_name test_submission @ '' - '' @
                      company_name sample_config @ '' Underwrite''),
          DocsBatchUpdate (underwrite_doc_id r) analysis_failed,
          FilesUpdate (underwrite_doc_id r) P ''root'',
          MessagesPost (kiq_prompt analysis_failed)] @ rest)"
proof -
  let ?sv = "demo_services analysis_down matches_every_word"
  let ?t1 = "email test_submission @ '' - '' @ project_name test_submission @ '' - '' @
             company_name sample_config @ '' Underwrite''"
  have store: "\<And>h c. aborts c \<Longrightarrow> raises ?sv h c = None"
    by (auto simp: demo_services_def analysis_down_def split: call.splits)
  have fails: "\<And>h d. raises ?sv h (MessagesPost (underwrite_prompt d)) \<noteq> None"
    by (simp add: demo_services_def analysis_down_def underwrite_prompt_def)
  obtain r w' where
    run: "process_submission ?sv sample_config test_submission ''test_document.pdf'' empty_world
            = (Inr r, w')"
    and nodup: "\<not> duplicate_detected r"
    by (rule run_completes [OF demo_no_match store])
  note fed = failed_analysis_feeds_second_stage [OF run nodup]
  note wording = fed [THEN conjunct1]
  from fed [THEN conjunct2] obtain pre d a P rest where parts:
    "journal w' = journal empty_world @ pre @
         [MessagesPost (underwrite_prompt d), DocsCreate ?t1,
          DocsBatchUpdate (underwrite_doc_id r) a,
          FilesUpdate (underwrite_doc_id r) P ''root'',
          MessagesPost (kiq_prompt a)] @ rest \<and>
       (\<forall>c\<in>set pre. \<forall>p. c \<noteq> MessagesPost p) \<and>
       (\<forall>c\<in>set rest. \<forall>p. c \<noteq> MessagesPost p) \<and>
       (raises ?sv (journal empty_world @ pre) (MessagesPost (underwrite_prompt d)) \<noteq> None \<longrightarrow>
          a = analysis_failed)"
    by (elim exE)
  note shape = parts [THEN conjunct1]
  note first = parts [THEN conjunct2, THEN conjunct2, THEN conjunct2]
  have a: "a = analysis_failed"
    using first fails by (rule mp)
  have fed_placeholder: "\<exists>pre d P rest.
       journal w' = journal empty_world @ pre @
         [MessagesPost (underwrite_prompt d), DocsCreate ?t1,
          DocsBatchUpdate (underwrite_doc_id r) analysis_failed,
          FilesUpdate (underwrite_doc_id r) P ''root'',
          MessagesPost (kiq_prompt analysis_failed)] @ rest"
    by (rule exI [of _ pre], rule exI [of _ d], rule exI [of _ P], rule exI [of _ rest])
      (rule shape [unfolded a])
  show ?thesis
    by (rule exI [of _ r], rule exI [of _ w'])
      (rule conjI [OF run conjI [OF wording fed_placeholder]])
qed

end
